theory Spec2Isabelle
  imports Complex_Main "HOL-Library.Word"
begin

section \<open>Python values used by \<open>qga_wrapper.py\<close>\<close>

text \<open>
  A Python \<open>str\<close> is a sequence of Unicode code points and is modelled as a list of
  natural numbers; \<open>bytes\<close> is a list of 8-bit words. \<open>ustr\<close> and \<open>ascii\<close> turn an
  Isabelle string literal into the one and the other, so that the literals of the source
  can be written as they are there.
\<close>

type_synonym ustr = "nat list"
type_synonym bytes = "8 word list"

definition ustr :: "string \<Rightarrow> ustr" where
  "ustr s = map of_char s"

definition ascii :: "string \<Rightarrow> bytes" where
  "ascii s = map of_char s"

text \<open>
  The values \<open>json.loads\<close> produces and \<open>json.dumps\<close> accepts in this program: \<open>None\<close>,
  \<open>bool\<close>, \<open>int\<close>, \<open>str\<close>, \<open>list\<close> and \<open>dict\<close> with \<open>str\<close> keys. A \<open>dict\<close> is an
  association list in insertion order. Floating-point numbers are outside the model.
\<close>

datatype json =
    JNull
  | JBool bool
  | JInt int
  | JStr ustr
  | JList "json list"
  | JObj "(ustr \<times> json) list"

text \<open>The exception classes of the module (lines 22-34) and the built-in ones the code can raise.\<close>

datatype error =
    QGAError ustr
  | QGAConnectionError ustr
  | QGAProtocolError ustr
  | AttributeError
  | TypeError
  | IndexError
  | UnicodeDecodeError
  | UnicodeEncodeError
  | ValueError

text \<open>\<open>isinstance(e, QGAError)\<close>: the two subclasses derive from the base class.\<close>

fun is_QGAError :: "error \<Rightarrow> bool" where
  "is_QGAError (QGAError m) = True"
| "is_QGAError (QGAConnectionError m) = True"
| "is_QGAError (QGAProtocolError m) = True"
| "is_QGAError e = False"

subsection \<open>Truthiness, membership and \<open>dict.get\<close>\<close>

text \<open>\<open>bool(v)\<close>, as \<open>if v:\<close> evaluates it.\<close>

fun truthy :: "json \<Rightarrow> bool" where
  "truthy JNull = False"
| "truthy (JBool b) = b"
| "truthy (JInt i) = (i \<noteq> 0)"
| "truthy (JStr s) = (s \<noteq> [])"
| "truthy (JList xs) = (xs \<noteq> [])"
| "truthy (JObj kvs) = (kvs \<noteq> [])"

text \<open>\<open>needle in haystack\<close> for two \<open>str\<close>: the needle occurs as a contiguous run.\<close>

fun str_contains :: "ustr \<Rightarrow> ustr \<Rightarrow> bool" where
  "str_contains needle [] = (needle = [])"
| "str_contains needle (c # cs) =
     (take (length needle) (c # cs) = needle \<or> str_contains needle cs)"

text \<open>
  \<open>key in v\<close> for a \<open>str\<close> key: a \<open>dict\<close> looks among its keys, a \<open>list\<close> among its
  elements, a \<open>str\<close> for a substring; \<open>None\<close>, \<open>bool\<close> and \<open>int\<close> are not iterable.
\<close>

fun py_in :: "ustr \<Rightarrow> json \<Rightarrow> error + bool" where
  "py_in k (JObj kvs) = Inr (k \<in> set (map fst kvs))"
| "py_in k (JList xs) = Inr (JStr k \<in> set xs)"
| "py_in k (JStr s) = Inr (str_contains k s)"
| "py_in k v = Inl TypeError"

text \<open>\<open>v[key]\<close> for a \<open>str\<close> key whose membership has been tested: only a \<open>dict\<close> has it.\<close>

fun py_item :: "json \<Rightarrow> ustr \<Rightarrow> error + json" where
  "py_item (JObj kvs) k = (case map_of kvs k of Some v \<Rightarrow> Inr v | None \<Rightarrow> Inl TypeError)"
| "py_item v k = Inl TypeError"

text \<open>\<open>v.get(key, default)\<close>: only a \<open>dict\<close> has the method.\<close>

fun py_get :: "json \<Rightarrow> ustr \<Rightarrow> json \<Rightarrow> error + json" where
  "py_get (JObj kvs) k d = Inr (case map_of kvs k of Some v \<Rightarrow> v | None \<Rightarrow> d)"
| "py_get v k d = Inl AttributeError"

subsection \<open>\<open>json.dumps\<close>\<close>

text \<open>Decimal digits of a natural number, and \<open>int.__repr__\<close>.\<close>

fun dec_nat :: "nat \<Rightarrow> ustr" where
  "dec_nat n = (if n < 10 then [48 + n] else dec_nat (n div 10) @ [48 + n mod 10])"

declare dec_nat.simps [simp del]

definition dec_int :: "int \<Rightarrow> ustr" where
  "dec_int i = (if i < 0 then 45 # dec_nat (nat (- i)) else dec_nat (nat i))"

text \<open>One lower-case hexadecimal digit and the \<open>\uXXXX\<close> escape of \<open>'\\u{0:04x}'.format(n)\<close>.\<close>

definition hex_digit :: "nat \<Rightarrow> nat" where
  "hex_digit d = (if d < 10 then 48 + d else 87 + d)"

definition u_escape :: "nat \<Rightarrow> ustr" where
  "u_escape n =
     [92, 117, hex_digit (n div 4096 mod 16), hex_digit (n div 256 mod 16),
      hex_digit (n div 16 mod 16), hex_digit (n mod 16)]"

text \<open>
  \<open>encode_basestring_ascii\<close>: the quote and the backslash are escaped with a backslash,
  the five control characters by their letter, every other character outside
  \<open>' '..'~'\<close> as \<open>\uXXXX\<close>, above the basic plane as a surrogate pair.
\<close>

definition escape_char :: "nat \<Rightarrow> ustr" where
  "escape_char c =
     (if c = 34 then [92, 34]
      else if c = 92 then [92, 92]
      else if c = 10 then [92, 110]
      else if c = 13 then [92, 114]
      else if c = 9 then [92, 116]
      else if c = 8 then [92, 98]
      else if c = 12 then [92, 102]
      else if 32 \<le> c \<and> c \<le> 126 then [c]
      else if c < 65536 then u_escape c
      else u_escape (55296 + (c - 65536) div 1024 mod 1024)
         @ u_escape (56320 + (c - 65536) mod 1024))"

definition dumps_str :: "ustr \<Rightarrow> ustr" where
  "dumps_str s = [34] @ concat (map escape_char s) @ [34]"

text \<open>
  \<open>json.dumps(v)\<close> with the default separators \<open>', '\<close> and \<open>': '\<close> and
  \<open>ensure_ascii=True\<close>.
\<close>

fun dumps :: "json \<Rightarrow> ustr"
  and dumps_elems :: "json list \<Rightarrow> ustr"
  and dumps_items :: "(ustr \<times> json) list \<Rightarrow> ustr" where
  "dumps JNull = ustr ''null''"
| "dumps (JBool b) = (if b then ustr ''true'' else ustr ''false'')"
| "dumps (JInt i) = dec_int i"
| "dumps (JStr s) = dumps_str s"
| "dumps (JList xs) = [91] @ dumps_elems xs @ [93]"
| "dumps (JObj kvs) = [123] @ dumps_items kvs @ [125]"
| "dumps_elems [] = []"
| "dumps_elems [x] = dumps x"
| "dumps_elems (x # y # ys) = dumps x @ [44, 32] @ dumps_elems (y # ys)"
| "dumps_items [] = []"
| "dumps_items [(k, v)] = dumps_str k @ [58, 32] @ dumps v"
| "dumps_items ((k, v) # kv # kvs) =
     dumps_str k @ [58, 32] @ dumps v @ [44, 32] @ dumps_items (kv # kvs)"

subsection \<open>\<open>str.encode('utf-8')\<close> and \<open>base64.b64encode\<close>\<close>

text \<open>UTF-8 of one code point; a surrogate cannot be encoded.\<close>

definition utf8_char :: "nat \<Rightarrow> bytes option" where
  "utf8_char c =
     (if c < 128 then Some [of_nat c]
      else if c < 2048 then Some [of_nat (192 + c div 64), of_nat (128 + c mod 64)]
      else if 55296 \<le> c \<and> c < 57344 then None
      else if c < 65536 then
        Some [of_nat (224 + c div 4096), of_nat (128 + c div 64 mod 64), of_nat (128 + c mod 64)]
      else
        Some [of_nat (240 + c div 262144), of_nat (128 + c div 4096 mod 64),
              of_nat (128 + c div 64 mod 64), of_nat (128 + c mod 64)])"

fun utf8_encode :: "ustr \<Rightarrow> bytes option" where
  "utf8_encode [] = Some []"
| "utf8_encode (c # cs) =
     (case utf8_char c of
        None \<Rightarrow> None
      | Some bs \<Rightarrow> (case utf8_encode cs of None \<Rightarrow> None | Some rest \<Rightarrow> Some (bs @ rest)))"

text \<open>The base64 alphabet and the encoder, three bytes to four characters, padded with \<open>=\<close>.\<close>

definition b64_char :: "nat \<Rightarrow> nat" where
  "b64_char i =
     (if i < 26 then 65 + i
      else if i < 52 then 97 + (i - 26)
      else if i < 62 then 48 + (i - 52)
      else if i = 62 then 43
      else 47)"

fun b64encode :: "bytes \<Rightarrow> ustr" where
  "b64encode [] = []"
| "b64encode [a] =
     [b64_char (unat a div 4), b64_char (unat a mod 4 * 16), 61, 61]"
| "b64encode [a, b] =
     [b64_char (unat a div 4), b64_char (unat a mod 4 * 16 + unat b div 16),
      b64_char (unat b mod 16 * 4), 61]"
| "b64encode (a # b # c # rest) =
     [b64_char (unat a div 4), b64_char (unat a mod 4 * 16 + unat b div 16),
      b64_char (unat b mod 16 * 4 + unat c div 64), b64_char (unat c mod 64)]
     @ b64encode rest"

section \<open>The socket and the library functions\<close>

text \<open>
  The peer is a script: what each later \<open>recv\<close> call delivers and whether each later
  \<open>sendall\<close> call fails. \<open>Data []\<close> is the orderly close of the peer. A script that has
  run out delivers nothing, so a \<open>recv\<close> there ends with the socket's timeout.
\<close>

datatype recv_event = Data bytes | RecvTimeout | RecvError ustr

record socket =
  sock_timeout :: rat
  incoming :: "recv_event list"
  send_faults :: "ustr option list"
  sent :: "bytes list"

text \<open>\<open>sock.recv(n)\<close>: at most \<open>n\<close> bytes of the next delivery; the rest stays queued.\<close>

definition recv :: "nat \<Rightarrow> socket \<Rightarrow> recv_event \<times> socket" where
  "recv n s =
     (case incoming s of
        [] \<Rightarrow> (RecvTimeout, s)
      | Data bs # rest \<Rightarrow>
          (if length bs \<le> n then (Data bs, s\<lparr>incoming := rest\<rparr>)
           else (Data (take n bs), s\<lparr>incoming := Data (drop n bs) # rest\<rparr>))
      | RecvTimeout # rest \<Rightarrow> (RecvTimeout, s\<lparr>incoming := rest\<rparr>)
      | RecvError m # rest \<Rightarrow> (RecvError m, s\<lparr>incoming := rest\<rparr>))"

text \<open>\<open>sock.sendall(bs)\<close>: \<open>Some m\<close> is a \<open>socket.error\<close> with text \<open>m\<close>.\<close>

definition sendall :: "bytes \<Rightarrow> socket \<Rightarrow> ustr option \<times> socket" where
  "sendall bs s =
     (case send_faults s of
        [] \<Rightarrow> (None, s\<lparr>sent := sent s @ [bs]\<rparr>)
      | None # fs \<Rightarrow> (None, s\<lparr>send_faults := fs, sent := sent s @ [bs]\<rparr>)
      | Some m # fs \<Rightarrow> (Some m, s\<lparr>send_faults := fs\<rparr>))"

text \<open>
  The library functions whose results the program only passes on are parameters:
  \<open>json_loads\<close> is \<open>json.loads(data.decode('utf-8'))\<close>, \<open>b64decode_text\<close> is
  \<open>base64.b64decode(v).decode('utf-8')\<close> with the text of the exception on the left,
  \<open>repr_json\<close> is \<open>str\<close> of a list or a dict, and \<open>str_elapsed n t\<close> is \<open>str(n * t)\<close>
  for the poll count and the poll interval.
\<close>

datatype loads_error = JSONDecodeError ustr | UnicodeDecodeFailure

record pylib =
  json_loads :: "bytes \<Rightarrow> loads_error + json"
  b64decode_text :: "json \<Rightarrow> ustr + ustr"
  repr_json :: "json \<Rightarrow> ustr"
  str_elapsed :: "int \<Rightarrow> rat \<Rightarrow> ustr"

text \<open>\<open>str(v)\<close>, as an f-string formats a value.\<close>

fun py_str :: "pylib \<Rightarrow> json \<Rightarrow> ustr" where
  "py_str lib (JStr s) = s"
| "py_str lib JNull = ustr ''None''"
| "py_str lib (JBool b) = (if b then ustr ''True'' else ustr ''False'')"
| "py_str lib (JInt i) = dec_int i"
| "py_str lib v = repr_json lib v"

section \<open>\<open>QGAConnection\<close>\<close>

text \<open>
  The log of the module's logger at its configured level \<open>INFO\<close> (the \<open>debug\<close> calls
  emit nothing), the intervals slept, and the outcome of each later \<open>connect\<close> on the
  socket path: a refusal with its text or not, and the script of the new socket. When
  the list has run out nothing listens, and the connection is refused.
\<close>

datatype level = INFO | WARNING

record endpoint =
  refuses :: "ustr option"
  replies :: "recv_event list"
  faults :: "ustr option list"

record world =
  log :: "(level \<times> ustr) list"
  slept :: "rat list"
  listeners :: "endpoint list"

text \<open>\<open>logger.info(msg)\<close> and \<open>logger.warning(msg)\<close>.\<close>

definition logger :: "level \<Rightarrow> ustr \<Rightarrow> world \<Rightarrow> world" where
  "logger lvl msg w = w\<lparr>log := log w @ [(lvl, msg)]\<rparr>"

record qga_connection =
  conn_socket_path :: ustr
  conn_timeout :: rat
  conn_sock :: "socket option"

text \<open>\<open>QGAConnection.__init__\<close> (lines 45-55).\<close>

definition QGAConnection :: "ustr \<Rightarrow> rat \<Rightarrow> qga_connection" where
  "QGAConnection path t = \<lparr>conn_socket_path = path, conn_timeout = t, conn_sock = None\<rparr>"

definition next_endpoint :: "world \<Rightarrow> endpoint" where
  "next_endpoint w =
     (case listeners w of
        [] \<Rightarrow> \<lparr>refuses = Some [], replies = [], faults = []\<rparr>
      | ep # eps \<Rightarrow> ep)"

text \<open>
  \<open>QGAConnection.connect\<close> (lines 57-65). The socket object is assigned before
  \<open>connect\<close> is called on it, so it stays in \<open>_sock\<close> when the connection is refused.
\<close>

definition connect :: "qga_connection \<Rightarrow> world \<Rightarrow> (error + unit) \<times> qga_connection \<times> world" where
  "connect c w =
     (let ep = next_endpoint w;
          w1 = w\<lparr>listeners := tl (listeners w)\<rparr>;
          s = \<lparr>sock_timeout = conn_timeout c, incoming = replies ep,
               send_faults = faults ep, sent = []\<rparr>;
          c1 = c\<lparr>conn_sock := Some s\<rparr>
      in case refuses ep of
           Some m \<Rightarrow>
             (Inl (QGAConnectionError
                (ustr ''Failed to connect to '' @ conn_socket_path c @ ustr '': '' @ m)), c1, w1)
         | None \<Rightarrow>
             (Inr (), c1, logger INFO (ustr ''Connected to QGA at '' @ conn_socket_path c) w1))"

text \<open>\<open>QGAConnection.disconnect\<close> (lines 67-72); closing a socket does not fail.\<close>

definition disconnect :: "qga_connection \<Rightarrow> world \<Rightarrow> (error + unit) \<times> qga_connection \<times> world" where
  "disconnect c w =
     (case conn_sock c of
        Some s \<Rightarrow>
          (Inr (), c\<lparr>conn_sock := None\<rparr>, logger INFO (ustr ''Disconnected from QGA'') w)
      | None \<Rightarrow> (Inr (), c, w))"

subsection \<open>\<open>send_command\<close>\<close>

text \<open>Lines 92-95: the request; \<open>if arguments:\<close> is false for \<open>None\<close> and for \<open>{}\<close>.\<close>

definition build_request :: "ustr \<Rightarrow> (ustr \<times> json) list option \<Rightarrow> json" where
  "build_request command arguments =
     JObj ([(ustr ''execute'', JStr command)]
           @ (case arguments of
                None \<Rightarrow> []
              | Some args \<Rightarrow> if args \<noteq> [] then [(ustr ''arguments'', JObj args)] else []))"

text \<open>Lines 98 and 102: \<open>(json.dumps(request) + "\n").encode('utf-8')\<close>.\<close>

definition encode_request :: "ustr \<Rightarrow> (ustr \<times> json) list option \<Rightarrow> bytes option" where
  "encode_request command arguments =
     utf8_encode (dumps (build_request command arguments) @ [10])"

text \<open>What is still queued on a socket: the measure of the receive loop.\<close>

fun event_size :: "recv_event \<Rightarrow> nat" where
  "event_size (Data bs) = Suc (length bs)"
| "event_size e = 1"

definition pending :: "socket \<Rightarrow> nat" where
  "pending s = sum_list (map event_size (incoming s))"

lemma recv_pending:
  assumes "recv n s = (Data bs, s')" and "0 < n"
  shows "pending s' < pending s"
  using assms
  by (auto simp: recv_def pending_def split: list.splits recv_event.splits if_splits)

lemma pending_timeout [simp]: "pending (s\<lparr>sock_timeout := t\<rparr>) = pending s"
  by (simp add: pending_def)

text \<open>
  Lines 107-142: the receive loop. \<open>tmo\<close> is \<open>self.timeout\<close>, restored by the
  \<open>finally\<close> clause after the short second read.
\<close>

function receive_loop :: "pylib \<Rightarrow> rat \<Rightarrow> bytes \<Rightarrow> socket \<Rightarrow> (error + bytes) \<times> socket" where
  "receive_loop lib tmo response_data s =
     (case recv 4096 s of
        (RecvTimeout, s1) \<Rightarrow>
          (Inl (QGAConnectionError (ustr ''Timeout waiting for response'')), s1)
      | (RecvError m, s1) \<Rightarrow>
          (Inl (QGAConnectionError (ustr ''Failed to receive response: '' @ m)), s1)
      | (Data chunk, s1) \<Rightarrow>
          (if chunk = [] then (Inr response_data, s1)
           else
             let data1 = response_data @ chunk in
             (case json_loads lib data1 of
                Inr v \<Rightarrow> (Inr data1, s1)
              | Inl e \<Rightarrow>
                  (if 10 \<in> set data1 \<or> last data1 = 125 then
                     (case recv 1024 (s1\<lparr>sock_timeout := 1 / 10\<rparr>) of
                        (Data extra, s2) \<Rightarrow>
                          (if extra \<noteq> [] then
                             receive_loop lib tmo (data1 @ extra) (s2\<lparr>sock_timeout := tmo\<rparr>)
                           else (Inr data1, s2\<lparr>sock_timeout := tmo\<rparr>))
                      | (RecvTimeout, s2) \<Rightarrow> (Inr data1, s2\<lparr>sock_timeout := tmo\<rparr>)
                      | (RecvError m, s2) \<Rightarrow>
                          (Inl (QGAConnectionError (ustr ''Failed to receive response: '' @ m)),
                           s2\<lparr>sock_timeout := tmo\<rparr>))
                   else receive_loop lib tmo data1 s1))))"
  by pat_completeness auto
termination
proof (relation "measure (\<lambda>(lib, tmo, d, s). pending s)")
  show "wf (measure (\<lambda>(lib, tmo, d, s). pending s))" by simp
next
  fix lib :: pylib and tmo :: rat and response_data :: bytes and s :: socket
    and x s1 chunk data1 e y s2 extra
  assume "(x, s1) = recv 4096 s" and "x = Data chunk"
    and "(y, s2) = recv 1024 (s1\<lparr>sock_timeout := 1 / 10\<rparr>)" and "y = Data extra"
  then have "pending s1 < pending s" and "pending s2 < pending s1"
    using recv_pending [of 4096 s chunk s1]
      recv_pending [of 1024 "s1\<lparr>sock_timeout := 1 / 10\<rparr>" extra s2]
    by simp_all
  then show "((lib, tmo, data1 @ extra, s2\<lparr>sock_timeout := tmo\<rparr>), lib, tmo, response_data, s)
      \<in> measure (\<lambda>(lib, tmo, d, s). pending s)"
    by simp
next
  fix lib :: pylib and tmo :: rat and response_data :: bytes and s :: socket
    and x s1 chunk data1
  assume "(x, s1) = recv 4096 s" and "x = Data chunk"
  then have "pending s1 < pending s"
    using recv_pending [of 4096 s chunk s1] by simp
  then show "((lib, tmo, data1, s1), lib, tmo, response_data, s)
      \<in> measure (\<lambda>(lib, tmo, d, s). pending s)"
    by simp
qed

declare receive_loop.simps [simp del]

text \<open>
  Lines 151-156: the check of the decoded reply. \<open>response["error"].get\<close> needs the
  value under \<open>"error"\<close> to be a dict.
\<close>

definition check_reply :: "pylib \<Rightarrow> json \<Rightarrow> error + json" where
  "check_reply lib response =
     (case py_in (ustr ''error'') response of
        Inl e \<Rightarrow> Inl e
      | Inr False \<Rightarrow> Inr response
      | Inr True \<Rightarrow>
          (case py_item response (ustr ''error'') of
             Inl e \<Rightarrow> Inl e
           | Inr err \<Rightarrow>
               (case py_get err (ustr ''desc'') (JStr (ustr ''Unknown error'')) of
                  Inl e \<Rightarrow> Inl e
                | Inr error_msg \<Rightarrow>
                    Inl (QGAProtocolError (ustr ''QGA error: '' @ py_str lib error_msg)))))"

text \<open>
  Lines 89-149: the request is sent and the reply received and parsed. Only
  \<open>JSONDecodeError\<close> is caught at line 148.
\<close>

definition exchange ::
  "pylib \<Rightarrow> ustr \<Rightarrow> (ustr \<times> json) list option \<Rightarrow> qga_connection \<Rightarrow> (error + json) \<times> qga_connection" where
  "exchange lib command arguments c =
     (case conn_sock c of
        None \<Rightarrow> (Inl (QGAConnectionError (ustr ''Not connected to QGA socket'')), c)
      | Some s \<Rightarrow>
          (case encode_request command arguments of
             None \<Rightarrow> (Inl UnicodeEncodeError, c)
           | Some bs \<Rightarrow>
               (case sendall bs s of
                  (Some m, s1) \<Rightarrow>
                    (Inl (QGAConnectionError (ustr ''Failed to send command: '' @ m)),
                     c\<lparr>conn_sock := Some s1\<rparr>)
                | (None, s1) \<Rightarrow>
                    (case receive_loop lib (conn_timeout c) [] s1 of
                       (Inl e, s2) \<Rightarrow> (Inl e, c\<lparr>conn_sock := Some s2\<rparr>)
                     | (Inr response_data, s2) \<Rightarrow>
                         (case json_loads lib response_data of
                            Inl (JSONDecodeError m) \<Rightarrow>
                              (Inl (QGAProtocolError (ustr ''Invalid JSON response: '' @ m)),
                               c\<lparr>conn_sock := Some s2\<rparr>)
                          | Inl UnicodeDecodeFailure \<Rightarrow>
                              (Inl UnicodeDecodeError, c\<lparr>conn_sock := Some s2\<rparr>)
                          | Inr response \<Rightarrow> (Inr response, c\<lparr>conn_sock := Some s2\<rparr>))))))"

text \<open>\<open>QGAConnection.send_command\<close> (lines 74-156).\<close>

definition send_command ::
  "pylib \<Rightarrow> ustr \<Rightarrow> (ustr \<times> json) list option \<Rightarrow> qga_connection \<Rightarrow> (error + json) \<times> qga_connection" where
  "send_command lib command arguments c =
     (case exchange lib command arguments c of
        (Inl e, c1) \<Rightarrow> (Inl e, c1)
      | (Inr response, c1) \<Rightarrow> (check_reply lib response, c1))"

section \<open>\<open>QGAClient\<close>\<close>

record qga_client =
  socket_path :: ustr
  timeout :: rat
  poll_interval :: rat
  max_poll_retries :: int
  connection :: "qga_connection option"

text \<open>The result dictionary of \<open>run_command\<close> (lines 355-360).\<close>

record exec_result =
  exitcode :: json
  exited :: bool
  stdout :: ustr
  stderr :: ustr

text \<open>\<open>QGAClient.__init__\<close> (lines 176-191).\<close>

definition QGAClient :: "ustr \<Rightarrow> rat \<Rightarrow> rat \<Rightarrow> int \<Rightarrow> qga_client" where
  "QGAClient path t interval retries =
     \<lparr>socket_path = path, timeout = t, poll_interval = interval,
      max_poll_retries = retries, connection = None\<rparr>"

text \<open>
  \<open>QGAClient.connect\<close> (lines 193-196): the new connection object is stored before it
  connects.
\<close>

definition client_connect :: "qga_client \<Rightarrow> world \<Rightarrow> (error + unit) \<times> qga_client \<times> world" where
  "client_connect cl w =
     (case connect (QGAConnection (socket_path cl) (timeout cl)) w of
        (r, c, w1) \<Rightarrow> (r, cl\<lparr>connection := Some c\<rparr>, w1))"

text \<open>\<open>QGAClient.disconnect\<close> (lines 198-202).\<close>

definition client_disconnect :: "qga_client \<Rightarrow> world \<Rightarrow> (error + unit) \<times> qga_client \<times> world" where
  "client_disconnect cl w =
     (case connection cl of
        Some c \<Rightarrow>
          (case disconnect c w of
             (Inl e, c1, w1) \<Rightarrow> (Inl e, cl\<lparr>connection := Some c1\<rparr>, w1)
           | (Inr u, c1, w1) \<Rightarrow> (Inr (), cl\<lparr>connection := None\<rparr>, w1))
      | None \<Rightarrow> (Inr (), cl, w))"

text \<open>\<open>QGAClient._ensure_connected\<close> (lines 204-207).\<close>

definition ensure_connected :: "qga_client \<Rightarrow> world \<Rightarrow> (error + unit) \<times> qga_client \<times> world" where
  "ensure_connected cl w =
     (case connection cl of
        None \<Rightarrow> client_connect cl w
      | Some c \<Rightarrow> (Inr (), cl, w))"

text \<open>
  \<open>self._connection.send_command(...)\<close> on the client: the connection object is
  updated in place; on \<open>None\<close> the attribute access fails.
\<close>

definition client_send ::
  "pylib \<Rightarrow> ustr \<Rightarrow> (ustr \<times> json) list option \<Rightarrow> qga_client \<Rightarrow> (error + json) \<times> qga_client" where
  "client_send lib command arguments cl =
     (case connection cl of
        None \<Rightarrow> (Inl AttributeError, cl)
      | Some c \<Rightarrow>
          (case send_command lib command arguments c of
             (r, c1) \<Rightarrow> (r, cl\<lparr>connection := Some c1\<rparr>)))"

text \<open>
  Lines 295-307 of \<open>exec_command\<close>: the arguments of \<open>guest-exec\<close>. \<open>command[0]\<close>
  raises on an empty list; \<open>input_data.encode()\<close> raises on a surrogate.
\<close>

definition exec_arguments ::
  "ustr list \<Rightarrow> bool \<Rightarrow> ustr option \<Rightarrow> ustr list option \<Rightarrow> error + (ustr \<times> json) list" where
  "exec_arguments command capture_output input_data env =
     (case command of
        [] \<Rightarrow> Inl IndexError
      | path # rest \<Rightarrow>
          (let a0 = [(ustr ''path'', JStr path), (ustr ''capture-output'', JBool capture_output)];
               a1 = a0 @ (if length command > 1
                           then [(ustr ''arg'', JList (map JStr rest))] else []);
               a3 = (case env of
                       None \<Rightarrow> []
                     | Some vars \<Rightarrow>
                         if vars \<noteq> [] then [(ustr ''env'', JList (map JStr vars))] else [])
           in case input_data of
                None \<Rightarrow> Inr (a1 @ a3)
              | Some inp \<Rightarrow>
                  (if inp \<noteq> [] then
                     (case utf8_encode inp of
                        None \<Rightarrow> Inl UnicodeEncodeError
                      | Some bs \<Rightarrow> Inr (a1 @ [(ustr ''input-data'', JStr (b64encode bs))] @ a3))
                   else Inr (a1 @ a3))))"

text \<open>
  \<open>QGAClient.exec_command\<close> (lines 279-310). The result is the value under \<open>"pid"\<close>,
  \<open>None\<close> (here \<open>JNull\<close>) when the key is absent.
\<close>

definition exec_command ::
  "pylib \<Rightarrow> ustr list \<Rightarrow> bool \<Rightarrow> ustr option \<Rightarrow> ustr list option \<Rightarrow> qga_client \<Rightarrow> world
    \<Rightarrow> (error + json) \<times> qga_client \<times> world" where
  "exec_command lib command capture_output input_data env cl w =
     (case ensure_connected cl w of
        (Inl e, cl1, w1) \<Rightarrow> (Inl e, cl1, w1)
      | (Inr u, cl1, w1) \<Rightarrow>
          (case exec_arguments command capture_output input_data env of
             Inl e \<Rightarrow> (Inl e, cl1, w1)
           | Inr arguments \<Rightarrow>
               (case client_send lib (ustr ''guest-exec'') (Some arguments) cl1 of
                  (Inl e, cl2) \<Rightarrow> (Inl e, cl2, w1)
                | (Inr response, cl2) \<Rightarrow>
                    (case py_get response (ustr ''return'') (JObj []) of
                       Inl e \<Rightarrow> (Inl e, cl2, w1)
                     | Inr ret \<Rightarrow>
                         (case py_get ret (ustr ''pid'') JNull of
                            Inl e \<Rightarrow> (Inl e, cl2, w1)
                          | Inr pid \<Rightarrow> (Inr pid, cl2, w1))))))"

text \<open>\<open>QGAClient.get_exec_status\<close> (lines 312-324).\<close>

definition get_exec_status ::
  "pylib \<Rightarrow> json \<Rightarrow> qga_client \<Rightarrow> world \<Rightarrow> (error + json) \<times> qga_client \<times> world" where
  "get_exec_status lib pid cl w =
     (case ensure_connected cl w of
        (Inl e, cl1, w1) \<Rightarrow> (Inl e, cl1, w1)
      | (Inr u, cl1, w1) \<Rightarrow>
          (case client_send lib (ustr ''guest-exec-status'') (Some [(ustr ''pid'', pid)]) cl1 of
             (Inl e, cl2) \<Rightarrow> (Inl e, cl2, w1)
           | (Inr response, cl2) \<Rightarrow>
               (case py_get response (ustr ''return'') (JObj []) of
                  Inl e \<Rightarrow> (Inl e, cl2, w1)
                | Inr status \<Rightarrow> (Inr status, cl2, w1))))"

text \<open>
  Lines 363-373 of \<open>run_command\<close>, once for each stream: the field is decoded when it is
  present; a failure of the decoding is logged as a warning and the text stays empty.
\<close>

definition decode_stream ::
  "pylib \<Rightarrow> json \<Rightarrow> ustr \<Rightarrow> ustr \<Rightarrow> world \<Rightarrow> (error + ustr) \<times> world" where
  "decode_stream lib status field name w =
     (case py_in field status of
        Inl e \<Rightarrow> (Inl e, w)
      | Inr False \<Rightarrow> (Inr [], w)
      | Inr True \<Rightarrow>
          (case py_item status field of
             Inl e \<Rightarrow> (Inl e, w)
           | Inr v \<Rightarrow>
               (case b64decode_text lib v of
                  Inr text \<Rightarrow> (Inr text, w)
                | Inl m \<Rightarrow>
                    (Inr [],
                     logger WARNING (ustr ''Failed to decode '' @ name @ ustr '': '' @ m) w))))"

text \<open>Lines 354-376 of \<open>run_command\<close>: the result of a command that has exited.\<close>

definition collect_result ::
  "pylib \<Rightarrow> json \<Rightarrow> world \<Rightarrow> (error + exec_result) \<times> world" where
  "collect_result lib status w =
     (case py_get status (ustr ''exitcode'') (JInt (- 1)) of
        Inl e \<Rightarrow> (Inl e, w)
      | Inr code \<Rightarrow>
          (case decode_stream lib status (ustr ''out-data'') (ustr ''stdout'') w of
             (Inl e, w1) \<Rightarrow> (Inl e, w1)
           | (Inr out, w1) \<Rightarrow>
               (case decode_stream lib status (ustr ''err-data'') (ustr ''stderr'') w1 of
                  (Inl e, w2) \<Rightarrow> (Inl e, w2)
                | (Inr err, w2) \<Rightarrow>
                    (Inr \<lparr>exitcode = code, exited = True, stdout = out, stderr = err\<rparr>,
                     logger INFO
                       (ustr ''Command completed with exit code: '' @ py_str lib code) w2))))"

text \<open>\<open>time.sleep(t)\<close>: a negative length is a \<open>ValueError\<close>.\<close>

definition sleep :: "rat \<Rightarrow> world \<Rightarrow> world option" where
  "sleep t w = (if t < 0 then None else Some (w\<lparr>slept := slept w @ [t]\<rparr>))"

text \<open>\<open>' '.join(command)\<close>.\<close>

fun join_space :: "ustr list \<Rightarrow> ustr" where
  "join_space [] = []"
| "join_space [x] = x"
| "join_space (x # y # ys) = x @ [32] @ join_space (y # ys)"

text \<open>A status poll leaves the client's configuration and the sleep record alone.\<close>

lemma client_send_frame:
  assumes "client_send lib command arguments cl = (r, cl1)"
  shows "max_poll_retries cl1 = max_poll_retries cl \<and> poll_interval cl1 = poll_interval cl"
  using assms by (auto simp: client_send_def split: option.splits prod.splits)

lemma ensure_connected_frame:
  assumes "ensure_connected cl w = (r, cl1, w1)"
  shows "max_poll_retries cl1 = max_poll_retries cl \<and> poll_interval cl1 = poll_interval cl
    \<and> slept w1 = slept w"
  using assms
  by (auto simp: ensure_connected_def client_connect_def connect_def logger_def Let_def
      split: option.splits prod.splits)

lemma get_exec_status_frame:
  assumes "get_exec_status lib pid cl w = (r, cl1, w1)"
  shows "max_poll_retries cl1 = max_poll_retries cl \<and> poll_interval cl1 = poll_interval cl
    \<and> slept w1 = slept w"
proof -
  obtain r0 cl0 w0 where e: "ensure_connected cl w = (r0, cl0, w0)"
    by (cases "ensure_connected cl w") auto
  obtain r2 cl2 where
    c: "client_send lib (ustr ''guest-exec-status'') (Some [(ustr ''pid'', pid)]) cl0 = (r2, cl2)"
    by (cases "client_send lib (ustr ''guest-exec-status'') (Some [(ustr ''pid'', pid)]) cl0") auto
  from assms e c have "(cl1 = cl0 \<or> cl1 = cl2) \<and> w1 = w0"
    by (auto simp: get_exec_status_def split: sum.splits)
  with ensure_connected_frame [OF e] client_send_frame [OF c] show ?thesis
    by auto
qed

text \<open>
  Lines 349-381 of \<open>run_command\<close>: the polling loop, with \<open>retries\<close> as the loop counter.
\<close>

function poll_loop ::
  "pylib \<Rightarrow> json \<Rightarrow> int \<Rightarrow> qga_client \<Rightarrow> world \<Rightarrow> (error + exec_result) \<times> qga_client \<times> world" where
  "poll_loop lib pid retries cl w =
     (if retries < max_poll_retries cl then
        (case get_exec_status lib pid cl w of
           (Inl e, cl1, w1) \<Rightarrow> (Inl e, cl1, w1)
         | (Inr status, cl1, w1) \<Rightarrow>
             (case py_get status (ustr ''exited'') (JBool False) of
                Inl e \<Rightarrow> (Inl e, cl1, w1)
              | Inr ex \<Rightarrow>
                  (if truthy ex then
                     (case collect_result lib status w1 of (r, w2) \<Rightarrow> (r, cl1, w2))
                   else
                     (case sleep (poll_interval cl1) w1 of
                        None \<Rightarrow> (Inl ValueError, cl1, w1)
                      | Some w2 \<Rightarrow> poll_loop lib pid (retries + 1) cl1 w2))))
      else
        (Inl (QGAError (ustr ''Command execution timeout after ''
                @ str_elapsed lib retries (poll_interval cl) @ ustr '' seconds'')), cl, w))"
  by pat_completeness auto
termination
proof (relation "measure (\<lambda>(lib, pid, retries, cl, w). nat (max_poll_retries cl - retries))")
  show "wf (measure (\<lambda>(lib, pid, retries, cl, w). nat (max_poll_retries cl - retries)))"
    by simp
next
  fix lib :: pylib and pid :: json and retries :: int and cl :: qga_client and w :: world
    and x cl1 and y :: "qga_client \<times> world" and status w1 ex w2
  assume lt: "retries < max_poll_retries cl"
    and g: "(x, y) = get_exec_status lib pid cl w" and "x = Inr status" and y: "(cl1, w1) = y"
  from g y have "get_exec_status lib pid cl w = (x, cl1, w1)" by simp
  from get_exec_status_frame [OF this] have "max_poll_retries cl1 = max_poll_retries cl"
    by simp
  with lt show "((lib, pid, retries + 1, cl1, w2), lib, pid, retries, cl, w)
      \<in> measure (\<lambda>(lib, pid, retries, cl, w). nat (max_poll_retries cl - retries))"
    by simp
qed

declare poll_loop.simps [simp del]

text \<open>Line 346 of \<open>run_command\<close>: the launch is logged with the handle.\<close>

definition launched :: "pylib \<Rightarrow> ustr list \<Rightarrow> json \<Rightarrow> world \<Rightarrow> world" where
  "launched lib command pid w =
     logger INFO
       (ustr ''Executing command: '' @ join_space command
        @ ustr '' (PID: '' @ py_str lib pid @ ustr '')'') w"

text \<open>\<open>QGAClient.run_command\<close> (lines 326-381).\<close>

definition run_command ::
  "pylib \<Rightarrow> ustr list \<Rightarrow> bool \<Rightarrow> ustr option \<Rightarrow> ustr list option \<Rightarrow> qga_client \<Rightarrow> world
    \<Rightarrow> (error + exec_result) \<times> qga_client \<times> world" where
  "run_command lib command capture_output input_data env cl w =
     (case exec_command lib command capture_output input_data env cl w of
        (Inl e, cl1, w1) \<Rightarrow> (Inl e, cl1, w1)
      | (Inr pid, cl1, w1) \<Rightarrow>
          poll_loop lib pid 0 cl1 (launched lib command pid w1))"

text \<open>
  The client and the world after \<open>k\<close> rounds of the loop that did not end it: each
  round is one \<open>get_exec_status\<close> followed by the sleep.
\<close>

fun after_polls :: "pylib \<Rightarrow> json \<Rightarrow> nat \<Rightarrow> qga_client \<Rightarrow> world \<Rightarrow> qga_client \<times> world" where
  "after_polls lib pid 0 cl w = (cl, w)"
| "after_polls lib pid (Suc k) cl w =
     (case get_exec_status lib pid cl w of
        (r, cl1, w1) \<Rightarrow>
          after_polls lib pid k cl1 (w1\<lparr>slept := slept w1 @ [poll_interval cl1]\<rparr>))"

text \<open>
  Each of the next \<open>k\<close> polls returns a status, and none of them reports that the
  command has exited.
\<close>

fun never_exits :: "pylib \<Rightarrow> json \<Rightarrow> nat \<Rightarrow> qga_client \<Rightarrow> world \<Rightarrow> bool" where
  "never_exits lib pid 0 cl w = True"
| "never_exits lib pid (Suc k) cl w =
     (case get_exec_status lib pid cl w of
        (Inl e, cl1, w1) \<Rightarrow> False
      | (Inr status, cl1, w1) \<Rightarrow>
          (case py_get status (ustr ''exited'') (JBool False) of
             Inl e \<Rightarrow> False
           | Inr ex \<Rightarrow>
               \<not> truthy ex
               \<and> never_exits lib pid k cl1 (w1\<lparr>slept := slept w1 @ [poll_interval cl1]\<rparr>)))"

text \<open>
  The handle and the state in which \<open>run_command\<close> makes its poll number \<open>k + 1\<close>,
  when it makes one: the launch succeeded, the first \<open>k\<close> polls did not see the command
  exit, the sleeps were valid and the bound allows another poll.
\<close>

definition poll_state ::
  "pylib \<Rightarrow> ustr list \<Rightarrow> bool \<Rightarrow> ustr option \<Rightarrow> ustr list option \<Rightarrow> qga_client \<Rightarrow> world
    \<Rightarrow> nat \<Rightarrow> (json \<times> qga_client \<times> world) option" where
  "poll_state lib command capture_output input_data env cl w k =
     (case exec_command lib command capture_output input_data env cl w of
        (Inl e, cl1, w1) \<Rightarrow> None
      | (Inr pid, cl1, w1) \<Rightarrow>
          if never_exits lib pid k cl1 (launched lib command pid w1)
             \<and> int k < max_poll_retries cl \<and> 0 \<le> poll_interval cl
          then Some (pid, after_polls lib pid k cl1 (launched lib command pid w1))
          else None)"

text \<open>The characters \<open>' '..'~'\<close>, the range \<open>json.dumps\<close> keeps its output in.\<close>

definition printable :: "ustr \<Rightarrow> bool" where
  "printable s = (\<forall>c \<in> set s. 32 \<le> c \<and> c \<le> 126)"

section \<open>Concrete peers and library functions for the examples\<close>

text \<open>
  A \<open>json.loads\<close> given by a table of documents, each followed by the newline the
  agent ends its replies with; any other input is a \<open>JSONDecodeError\<close>.
\<close>

definition loads_table :: "(string \<times> json) list \<Rightarrow> bytes \<Rightarrow> loads_error + json" where
  "loads_table t bs =
     (case map_of (map (\<lambda>(doc, v). (ascii doc @ [10], v)) t) bs of
        Some v \<Rightarrow> Inr v
      | None \<Rightarrow> Inl (JSONDecodeError (ustr ''Expecting value'')))"

definition demo_replies :: "(string \<times> json) list" where
  \<open>demo_replies =
     [(''{}'', JObj []),
      (''{"return": {}}'', JObj [(ustr ''return'', JObj [])]),
      (''{"error": {"desc": "command not found"}}'',
         JObj [(ustr ''error'', JObj [(ustr ''desc'', JStr (ustr ''command not found''))])]),
      (''{"return": 1, "error": {"class": "GenericError"}}'',
         JObj [(ustr ''return'', JInt 1),
               (ustr ''error'', JObj [(ustr ''class'', JStr (ustr ''GenericError''))])]),
      (''{"return": 0}'', JObj [(ustr ''return'', JInt 0)]),
      (''{"return": {"pid": 42}}'', JObj [(ustr ''return'', JObj [(ustr ''pid'', JInt 42)])]),
      (''{"return": {"exited": false}}'',
         JObj [(ustr ''return'', JObj [(ustr ''exited'', JBool False)])]),
      (''{"return": {"exited": true}}'',
         JObj [(ustr ''return'', JObj [(ustr ''exited'', JBool True)])]),
      (''{"return": {"exited": true, "exitcode": 3, "out-data": "abc"}}'',
         JObj [(ustr ''return'',
                JObj [(ustr ''exited'', JBool True), (ustr ''exitcode'', JInt 3),
                      (ustr ''out-data'', JStr (ustr ''abc''))])])]\<close>

text \<open>
  \<open>base64.b64decode("abc")\<close> raises \<open>binascii.Error: Incorrect padding\<close>;
  \<open>0 * 0.1\<close> prints as \<open>0.0\<close>, \<open>1 * 0.1\<close> as \<open>0.1\<close> and \<open>2 * 0.1\<close> as \<open>0.2\<close>; the
  other entries of the two functions are not used.
\<close>

definition demo_lib :: pylib where
  "demo_lib =
     \<lparr>json_loads = loads_table demo_replies,
      b64decode_text = (\<lambda>v. Inl (ustr ''Incorrect padding'')),
      repr_json = (\<lambda>v. []),
      str_elapsed =
        (\<lambda>n t. if t = 1 / 10 \<and> n = 0 then ustr ''0.0''
               else if t = 1 / 10 \<and> n = 1 then ustr ''0.1''
               else if t = 1 / 10 \<and> n = 2 then ustr ''0.2'' else [])\<rparr>"

text \<open>The agent's reply as one delivery, and a connected socket with a script.\<close>

definition reply :: "string \<Rightarrow> recv_event" where
  "reply doc = Data (ascii doc @ [10])"

definition demo_connection :: "recv_event list \<Rightarrow> qga_connection" where
  "demo_connection evs =
     \<lparr>conn_socket_path = ustr ''/tmp/qga.sock'', conn_timeout = 30,
      conn_sock = Some \<lparr>sock_timeout = 30, incoming = evs, send_faults = [], sent = []\<rparr>\<rparr>"

text \<open>
  A connected client with the poll interval 0.1, whose socket has sent \<open>out\<close> and will
  receive \<open>evs\<close>.
\<close>

definition demo_client :: "int \<Rightarrow> bytes list \<Rightarrow> recv_event list \<Rightarrow> qga_client" where
  "demo_client retries out evs =
     \<lparr>socket_path = ustr ''/tmp/qga.sock'', timeout = 30, poll_interval = 1 / 10,
      max_poll_retries = retries,
      connection = Some
        \<lparr>conn_socket_path = ustr ''/tmp/qga.sock'', conn_timeout = 30,
         conn_sock = Some \<lparr>sock_timeout = 30, incoming = evs, send_faults = [], sent = out\<rparr>\<rparr>\<rparr>"

definition demo_world :: world where
  "demo_world = \<lparr>log = [], slept = [], listeners = []\<rparr>"

text \<open>\<open>sendall\<close> on this socket will not fail.\<close>

definition send_ok :: "socket \<Rightarrow> bool" where
  "send_ok s = (case send_faults s of Some m # fs \<Rightarrow> False | _ \<Rightarrow> True)"

section \<open>Facts about the encoding and the receive loop\<close>

lemma printable_Nil [simp]: "printable []" by (simp add: printable_def)
lemma printable_Cons [simp]: "printable (c # s) = (32 \<le> c \<and> c \<le> 126 \<and> printable s)"
  by (auto simp: printable_def)
lemma printable_append [simp]: "printable (s @ t) = (printable s \<and> printable t)"
  by (auto simp: printable_def)

lemma hex_digit_printable: "d < 16 \<Longrightarrow> 32 \<le> hex_digit d \<and> hex_digit d \<le> 126"
  by (simp add: hex_digit_def)

lemma u_escape_printable: "printable (u_escape n)"
  by (simp add: u_escape_def hex_digit_printable)

lemma escape_char_printable: "printable (escape_char c)"
  by (simp add: escape_char_def u_escape_printable)

lemma dumps_str_printable: "printable (dumps_str s)"
  by (induction s) (simp_all add: dumps_str_def escape_char_printable)

lemma dec_nat_printable: "printable (dec_nat n)"
proof (induction n rule: dec_nat.induct)
  case (1 n)
  show ?case
  proof (cases "n < 10")
    case True
    then show ?thesis by (subst dec_nat.simps) simp
  next
    case False
    have "n mod 10 < 10" by simp
    then have "48 + n mod 10 \<le> 126" by linarith
    with False "1.IH" show ?thesis by (subst dec_nat.simps) simp
  qed
qed

lemma dec_int_printable: "printable (dec_int i)"
  by (simp add: dec_int_def dec_nat_printable)

lemma dumps_printable:
  "printable (dumps v)" "printable (dumps_elems vs)" "printable (dumps_items kvs)"
  by (induction v and vs and kvs rule: dumps_dumps_elems_dumps_items.induct)
     (simp_all add: ustr_def dumps_str_printable dec_int_printable)

lemma utf8_encode_printable: "printable s \<Longrightarrow> utf8_encode s = Some (map of_nat s)"
  by (induction s) (simp_all add: utf8_char_def)

lemma utf8_encode_newline: "printable s \<Longrightarrow> utf8_encode (s @ [10]) = Some (map of_nat s @ [10])"
  by (induction s) (simp_all add: utf8_char_def)

lemma printable_no_newline: "printable s \<Longrightarrow> 10 \<notin> set s"
  by (auto simp: printable_def)

lemma of_nat_newline: "printable s \<Longrightarrow> (10::8 word) \<notin> set (map of_nat s)"
proof
  assume p: "printable s" and "(10::8 word) \<in> set (map of_nat s)"
  then obtain c where c: "c \<in> set s" and e: "(of_nat c :: 8 word) = 10" by auto
  from p c have r: "32 \<le> c" "c \<le> 126" by (auto simp: printable_def)
  then have "unat (of_nat c :: 8 word) = c" by (simp add: unat_of_nat)
  with e r show False by simp
qed

lemma encode_request_eq:
  "encode_request command arguments
     = Some (map of_nat (dumps (build_request command arguments)) @ [10])"
  by (simp add: encode_request_def utf8_encode_newline dumps_printable)

lemma recv_frame:
  assumes "recv n s = (e, s')"
  shows "sent s' = sent s \<and> send_faults s' = send_faults s \<and> sock_timeout s' = sock_timeout s"
  using assms by (auto simp: recv_def split: list.splits recv_event.splits if_splits)


lemma receive_loop_frame:
  "receive_loop lib tmo d s = (r, s') \<Longrightarrow>
     sent s' = sent s \<and> send_faults s' = send_faults s
     \<and> (sock_timeout s' = sock_timeout s \<or> sock_timeout s' = tmo)"
proof (induction lib tmo d s arbitrary: r s' rule: receive_loop.induct)
  case (1 lib tmo d s)
  obtain x s1 where x: "recv 4096 s = (x, s1)" by (cases "recv 4096 s") auto
  note f1 = recv_frame [OF x]
  show ?case
  proof (cases x)
    case RecvTimeout
    with "1.prems" x f1 show ?thesis by (subst (asm) receive_loop.simps) auto
  next
    case (RecvError m)
    with "1.prems" x f1 show ?thesis by (subst (asm) receive_loop.simps) auto
  next
    case (Data chunk)
    show ?thesis
    proof (cases "chunk = []")
      case True
      with "1.prems" x f1 Data show ?thesis by (subst (asm) receive_loop.simps) auto
    next
      case ne: False
      show ?thesis
      proof (cases "json_loads lib (d @ chunk)")
        case (Inr v)
        with "1.prems" x f1 Data ne show ?thesis by (subst (asm) receive_loop.simps) auto
      next
        case (Inl e)
        show ?thesis
        proof (cases "10 \<in> set (d @ chunk) \<or> last (d @ chunk) = 125")
          case False
          with "1.prems" x Data ne Inl
          have "receive_loop lib tmo (d @ chunk) s1 = (r, s')"
            by (subst (asm) receive_loop.simps) (auto simp: Let_def)
          from "1.IH"(2) [OF x [symmetric] Data ne refl Inl False this] f1
          show ?thesis by auto
        next
          case True
          obtain y s2 where y: "recv 1024 (s1\<lparr>sock_timeout := 1 / 10\<rparr>) = (y, s2)"
            by (cases "recv 1024 (s1\<lparr>sock_timeout := 1 / 10\<rparr>)") auto
          note f2 = recv_frame [OF y]
          show ?thesis
          proof (cases "\<exists>extra. y = Data extra \<and> extra \<noteq> []")
            case False
            with "1.prems" x Data ne Inl True y f1 f2 show ?thesis
              by (subst (asm) receive_loop.simps) (cases y; auto simp: Let_def)
          next
            case True2: True
            then obtain extra where ex: "y = Data extra" "extra \<noteq> []" by auto
            with "1.prems" x Data ne Inl True y
            have "receive_loop lib tmo ((d @ chunk) @ extra) (s2\<lparr>sock_timeout := tmo\<rparr>) = (r, s')"
              by (subst (asm) receive_loop.simps) (auto simp: Let_def)
            from "1.IH"(1) [OF x [symmetric] Data ne refl Inl True y [symmetric] ex(1) ex(2) this] f1 f2
            show ?thesis by auto
          qed
        qed
      qed
    qed
  qed
qed

subsection \<open>Evaluation and the reply check\<close>

lemmas demo_defs = demo_lib_def demo_replies_def loads_table_def reply_def demo_connection_def
  demo_client_def demo_world_def ustr_def ascii_def

lemmas eval_defs = send_command_def exchange_def encode_request_def build_request_def
  dumps_str_def escape_char_def utf8_char_def sendall_def recv_def check_reply_def
  receive_loop.simps dec_int_def dec_nat.simps


lemma map_of_key: "map_of kvs k = Some v \<Longrightarrow> k \<in> set (map fst kvs)"
  by (induction kvs) (auto split: if_splits)

lemma check_reply_no_error:
  "ustr ''error'' \<notin> set (map fst kvs) \<Longrightarrow> check_reply lib (JObj kvs) = Inr (JObj kvs)"
  by (simp add: check_reply_def)

lemma check_reply_error:
  assumes "map_of kvs (ustr ''error'') = Some (JObj e)"
  shows "check_reply lib (JObj kvs) =
    Inl (QGAProtocolError (ustr ''QGA error: ''
      @ py_str lib (case map_of e (ustr ''desc'') of
                      Some d \<Rightarrow> d | None \<Rightarrow> JStr (ustr ''Unknown error''))))"
  using assms map_of_key [OF assms] by (simp add: check_reply_def)

lemma str_contains_self: "str_contains d d"
  by (cases d) simp_all

lemma str_contains_suffix: "str_contains d (p @ d)"
  by (induction p) (simp_all add: str_contains_self)

subsection \<open>The socket after an exchange\<close>

lemma sendall_frame:
  assumes "sendall bs s = (f, s0)"
  shows "sock_timeout s0 = sock_timeout s
    \<and> (send_ok s \<longrightarrow> f = None \<and> sent s0 = sent s @ [bs])"
  using assms
  by (auto simp: sendall_def send_ok_def split: list.splits option.splits)

lemma exchange_socket:
  assumes c: "conn_sock c = Some s" and x: "exchange lib command arguments c = (r, c1)"
  shows "\<exists>s1. c1 = c\<lparr>conn_sock := Some s1\<rparr>
    \<and> (sock_timeout s1 = sock_timeout s \<or> sock_timeout s1 = conn_timeout c)
    \<and> (send_ok s \<longrightarrow>
         sent s1 = sent s @ [map of_nat (dumps (build_request command arguments)) @ [10]])"
proof -
  let ?bs = "map of_nat (dumps (build_request command arguments)) @ [10] :: bytes"
  have e: "encode_request command arguments = Some ?bs"
    by (rule encode_request_eq)
  obtain f s0 where sa: "sendall ?bs s = (f, s0)"
    by (cases "sendall ?bs s") auto
  note f0 = sendall_frame [OF sa]
  show ?thesis
  proof (cases f)
    case (Some m)
    with c x e sa have "c1 = c\<lparr>conn_sock := Some s0\<rparr>"
      by (simp add: exchange_def)
    with f0 Some show ?thesis by auto
  next
    case None
    obtain rr s2 where rl: "receive_loop lib (conn_timeout c) [] s0 = (rr, s2)"
      by (cases "receive_loop lib (conn_timeout c) [] s0") auto
    note f2 = receive_loop_frame [OF rl]
    from c x e sa None rl have "c1 = c\<lparr>conn_sock := Some s2\<rparr>"
      by (auto simp: exchange_def split: sum.splits loads_error.splits)
    with f0 f2 show ?thesis by auto
  qed
qed

lemma send_command_socket:
  assumes c: "conn_sock c = Some s" and x: "send_command lib command arguments c = (r, c1)"
  shows "\<exists>s1. c1 = c\<lparr>conn_sock := Some s1\<rparr>
    \<and> (sock_timeout s1 = sock_timeout s \<or> sock_timeout s1 = conn_timeout c)
    \<and> (send_ok s \<longrightarrow>
         sent s1 = sent s @ [map of_nat (dumps (build_request command arguments)) @ [10]])"
proof -
  obtain r0 c0 where e: "exchange lib command arguments c = (r0, c0)"
    by (cases "exchange lib command arguments c") auto
  with x have "c1 = c0"
    by (auto simp: send_command_def split: sum.splits)
  with exchange_socket [OF c e] show ?thesis by simp
qed

lemma dumps_request_form:
  \<open>dumps (build_request command arguments)
     = ustr ''{"execute": '' @ dumps_str command
       @ (case arguments of
            None \<Rightarrow> []
          | Some args \<Rightarrow>
              if args \<noteq> [] then ustr '', "arguments": '' @ dumps (JObj args) else [])
       @ ustr ''}''\<close>
  by (simp add: build_request_def ustr_def dumps_str_def escape_char_def split: option.splits)

text \<open>\<open>connect\<close> leaves the socket with the configured timeout.\<close>

lemma connect_sets_timeout:
  assumes "connect c w = (r, c1, w1)"
  shows "\<exists>s. conn_sock c1 = Some s \<and> sock_timeout s = conn_timeout c1
    \<and> conn_timeout c1 = conn_timeout c"
  using assms by (auto simp: connect_def Let_def split: option.splits)

subsection \<open>The polling loop\<close>

lemma exec_command_frame:
  assumes "exec_command lib command capture_output input_data env cl w = (r, cl1, w1)"
  shows "max_poll_retries cl1 = max_poll_retries cl \<and> poll_interval cl1 = poll_interval cl
    \<and> slept w1 = slept w"
proof -
  obtain r0 cl0 w0 where e: "ensure_connected cl w = (r0, cl0, w0)"
    by (cases "ensure_connected cl w") auto
  show ?thesis
  proof (cases "exec_arguments command capture_output input_data env")
    case (Inl err)
    with assms e have "cl1 = cl0 \<and> w1 = w0"
      by (auto simp: exec_command_def split: sum.splits)
    with ensure_connected_frame [OF e] show ?thesis by simp
  next
    case (Inr args)
    obtain r2 cl2 where
      c: "client_send lib (ustr ''guest-exec'') (Some args) cl0 = (r2, cl2)"
      by (cases "client_send lib (ustr ''guest-exec'') (Some args) cl0") auto
    from assms e c Inr have "(cl1 = cl0 \<or> cl1 = cl2) \<and> w1 = w0"
      by (auto simp: exec_command_def split: sum.splits)
    with ensure_connected_frame [OF e] client_send_frame [OF c] show ?thesis
      by auto
  qed
qed

lemma after_polls_frame:
  "after_polls lib pid k cl w = (cl', w') \<Longrightarrow>
     max_poll_retries cl' = max_poll_retries cl \<and> poll_interval cl' = poll_interval cl
     \<and> slept w' = slept w @ replicate k (poll_interval cl)"
proof (induction k arbitrary: cl w)
  case 0
  then show ?case by simp
next
  case (Suc k)
  obtain r cl1 w1 where g: "get_exec_status lib pid cl w = (r, cl1, w1)"
    by (cases "get_exec_status lib pid cl w") auto
  note f = get_exec_status_frame [OF g]
  from Suc.prems g
  have "after_polls lib pid k cl1 (w1\<lparr>slept := slept w1 @ [poll_interval cl1]\<rparr>) = (cl', w')"
    by simp
  from Suc.IH [OF this] f show ?case
    by (simp add: replicate_append_same)
qed

lemma poll_loop_skip:
  "never_exits lib pid k cl w \<Longrightarrow> 0 \<le> poll_interval cl \<Longrightarrow>
   retries + int k \<le> max_poll_retries cl \<Longrightarrow>
   poll_loop lib pid retries cl w
     = (case after_polls lib pid k cl w of
          (cl', w') \<Rightarrow> poll_loop lib pid (retries + int k) cl' w')"
proof (induction k arbitrary: retries cl w)
  case 0
  then show ?case by simp
next
  case (Suc k)
  obtain r cl1 w1 where g: "get_exec_status lib pid cl w = (r, cl1, w1)"
    by (cases "get_exec_status lib pid cl w") auto
  note f = get_exec_status_frame [OF g]
  let ?w2 = "w1\<lparr>slept := slept w1 @ [poll_interval cl1]\<rparr>"
  from Suc.prems(1) g obtain status ex where r: "r = Inr status"
    and ex: "py_get status (ustr ''exited'') (JBool False) = Inr ex" "\<not> truthy ex"
    and ne: "never_exits lib pid k cl1 ?w2"
    by (auto split: sum.splits)
  from Suc.prems(2) f have sl: "sleep (poll_interval cl1) w1 = Some ?w2"
    by (simp add: sleep_def)
  from Suc.prems(3) have lt: "retries < max_poll_retries cl" by simp
  have e: "retries + int (Suc k) = retries + 1 + int k" by simp
  have a: "after_polls lib pid (Suc k) cl w = after_polls lib pid k cl1 ?w2"
    using g by simp
  have "poll_loop lib pid retries cl w = poll_loop lib pid (retries + 1) cl1 ?w2"
    using lt g r ex sl by (subst poll_loop.simps) simp
  also have "\<dots> = (case after_polls lib pid k cl1 ?w2 of
      (cl', w') \<Rightarrow> poll_loop lib pid (retries + 1 + int k) cl' w')"
    using Suc.prems f by (intro Suc.IH [OF ne]) simp_all
  finally show ?case unfolding e a .
qed

lemma poll_loop_exhausted:
  assumes "never_exits lib pid (nat (max_poll_retries cl)) cl w" and "0 \<le> poll_interval cl"
  shows "poll_loop lib pid 0 cl w
    = (Inl (QGAError (ustr ''Command execution timeout after ''
         @ str_elapsed lib (max 0 (max_poll_retries cl)) (poll_interval cl)
         @ ustr '' seconds'')),
       after_polls lib pid (nat (max_poll_retries cl)) cl w)"
proof -
  let ?k = "nat (max_poll_retries cl)"
  obtain cl' w' where a: "after_polls lib pid ?k cl w = (cl', w')"
    by (cases "after_polls lib pid ?k cl w") auto
  note f = after_polls_frame [OF a]
  have le: "0 + int ?k \<le> max_poll_retries cl \<or> max_poll_retries cl < 0" by simp
  show ?thesis
  proof (cases "max_poll_retries cl < 0")
    case True
    then have "?k = 0" by simp
    with True show ?thesis by (subst poll_loop.simps) (simp add: max_def)
  next
    case False
    then have k: "0 + int ?k = max_poll_retries cl" by simp
    then have "0 + int ?k \<le> max_poll_retries cl" by simp
    from poll_loop_skip [OF assms(1) assms(2) this]
    have "poll_loop lib pid 0 cl w = (case after_polls lib pid ?k cl w of
        (cl', w') \<Rightarrow> poll_loop lib pid (0 + int ?k) cl' w')" .
    then have "poll_loop lib pid 0 cl w = poll_loop lib pid (max_poll_retries cl) cl' w'"
      unfolding k a by simp
    also have "\<dots> = (Inl (QGAError (ustr ''Command execution timeout after ''
         @ str_elapsed lib (max_poll_retries cl) (poll_interval cl')
         @ ustr '' seconds'')), cl', w')"
      using f by (subst poll_loop.simps) simp
    finally show ?thesis using f a False by (simp add: max_def)
  qed
qed

lemma decode_stream_obj:
  "decode_stream lib (JObj kvs) field name w
     = (case map_of kvs field of
          None \<Rightarrow> (Inr [], w)
        | Some v \<Rightarrow>
            (case b64decode_text lib v of
               Inr text \<Rightarrow> (Inr text, w)
             | Inl m \<Rightarrow>
                 (Inr [], logger WARNING (ustr ''Failed to decode '' @ name @ ustr '': '' @ m) w)))"
proof (cases "map_of kvs field")
  case None
  then have "field \<notin> set (map fst kvs)"
    by (simp add: map_of_eq_None_iff)
  with None show ?thesis by (simp add: decode_stream_def)
next
  case (Some v)
  with map_of_key [OF Some] show ?thesis
    by (simp add: decode_stream_def split: sum.splits)
qed

lemma collect_result_obj:
  "\<exists>r w'. collect_result lib (JObj kvs) w = (Inr r, w')
     \<and> exitcode r = (case map_of kvs (ustr ''exitcode'') of Some v \<Rightarrow> v | None \<Rightarrow> JInt (- 1))
     \<and> exited r
     \<and> (\<forall>v m. map_of kvs (ustr ''out-data'') = Some v \<and> b64decode_text lib v = Inl m \<longrightarrow>
           stdout r = [] \<and> (WARNING, ustr ''Failed to decode stdout: '' @ m) \<in> set (log w'))
     \<and> (\<forall>v m. map_of kvs (ustr ''err-data'') = Some v \<and> b64decode_text lib v = Inl m \<longrightarrow>
           stderr r = [] \<and> (WARNING, ustr ''Failed to decode stderr: '' @ m) \<in> set (log w'))"
proof -
  have m1: "ustr ''Failed to decode '' @ ustr ''stdout'' @ ustr '': '' @ m
      = ustr ''Failed to decode stdout: '' @ m" for m
    by (simp add: ustr_def)
  have m2: "ustr ''Failed to decode '' @ ustr ''stderr'' @ ustr '': '' @ m
      = ustr ''Failed to decode stderr: '' @ m" for m
    by (simp add: ustr_def)
  show ?thesis
    by (auto simp: collect_result_def decode_stream_obj logger_def m1 m2
        split: option.splits sum.splits)
qed

lemma poll_loop_exited:
  assumes "retries < max_poll_retries cl"
    and "get_exec_status lib pid cl w = (Inr (JObj kvs), cl1, w1)"
    and "map_of kvs (ustr ''exited'') = Some ex" and "truthy ex"
  shows "poll_loop lib pid retries cl w
    = (case collect_result lib (JObj kvs) w1 of (r, w2) \<Rightarrow> (r, cl1, w2))"
  using assms by (subst poll_loop.simps) simp

lemma poll_loop_poll_error:
  assumes "retries < max_poll_retries cl"
    and "get_exec_status lib pid cl w = (Inl e, cl1, w1)"
  shows "poll_loop lib pid retries cl w = (Inl e, cl1, w1)"
  using assms by (subst poll_loop.simps) simp

lemma poll_loop_status_error:
  assumes "retries < max_poll_retries cl"
    and "get_exec_status lib pid cl w = (Inr status, cl1, w1)"
    and "py_get status (ustr ''exited'') (JBool False) = Inl e"
  shows "poll_loop lib pid retries cl w = (Inl e, cl1, w1)"
  using assms by (subst poll_loop.simps) simp

lemma run_command_poll_state:
  assumes "poll_state lib command capture_output input_data env cl w k = Some (pid, cl2, w3)"
  shows "run_command lib command capture_output input_data env cl w
      = poll_loop lib pid (int k) cl2 w3
    \<and> int k < max_poll_retries cl2"
proof -
  from assms obtain cl1 w1 where
    x: "exec_command lib command capture_output input_data env cl w = (Inr pid, cl1, w1)"
    and ne: "never_exits lib pid k cl1 (launched lib command pid w1)"
    and k: "int k < max_poll_retries cl" and i: "0 \<le> poll_interval cl"
    and a: "after_polls lib pid k cl1 (launched lib command pid w1) = (cl2, w3)"
    by (auto simp: poll_state_def split: prod.splits sum.splits if_splits)
  note f = exec_command_frame [OF x]
  note g = after_polls_frame [OF a]
  from k i f have "0 \<le> poll_interval cl1" and "0 + int k \<le> max_poll_retries cl1"
    by simp_all
  from poll_loop_skip [OF ne this] a
  have "poll_loop lib pid 0 cl1 (launched lib command pid w1) = poll_loop lib pid (int k) cl2 w3"
    by simp
  with x k f g show ?thesis
    by (simp add: run_command_def)
qed

lemma demo_exec:
  \<open>exec_command demo_lib [ustr ''sleep'', ustr ''60''] True None None
      (demo_client n out (reply ''{"return": {"pid": 42}}'' # evs)) w
    = (Inr (JInt 42),
       demo_client n
         (out @ [ascii (''{"execute": "guest-exec", "arguments": {"path": "sleep", ''
                        @ ''"capture-output": true, "arg": ["60"]}}'') @ [10]]) evs,
       w)\<close>
  by (simp add: exec_command_def ensure_connected_def exec_arguments_def client_send_def
      demo_defs eval_defs)

lemma demo_client_sel:
  "max_poll_retries (demo_client n out evs) = n"
  "poll_interval (demo_client n out evs) = 1 / 10"
  by (simp_all add: demo_client_def)

lemmas poll_eval = get_exec_status_def ensure_connected_def client_send_def

lemma demo_poll_running:
  \<open>get_exec_status demo_lib (JInt 42)
      (demo_client n out (reply ''{"return": {"exited": false}}'' # evs)) w
    = (Inr (JObj [(ustr ''exited'', JBool False)]),
       demo_client n
         (out @ [ascii ''{"execute": "guest-exec-status", "arguments": {"pid": 42}}'' @ [10]])
         evs,
       w)\<close>
  by (simp add: poll_eval demo_defs eval_defs)

lemma demo_poll_exited:
  \<open>get_exec_status demo_lib (JInt 42)
      (demo_client n out (reply ''{"return": {"exited": true}}'' # evs)) w
    = (Inr (JObj [(ustr ''exited'', JBool True)]),
       demo_client n
         (out @ [ascii ''{"execute": "guest-exec-status", "arguments": {"pid": 42}}'' @ [10]])
         evs,
       w)\<close>
  by (simp add: poll_eval demo_defs eval_defs)

lemma demo_poll_garbled:
  \<open>get_exec_status demo_lib (JInt 42)
      (demo_client n out
         (reply ''{"return": {"exited": true, "exitcode": 3, "out-data": "abc"}}'' # evs)) w
    = (Inr (JObj [(ustr ''exited'', JBool True), (ustr ''exitcode'', JInt 3),
                  (ustr ''out-data'', JStr (ustr ''abc''))]),
       demo_client n
         (out @ [ascii ''{"execute": "guest-exec-status", "arguments": {"pid": 42}}'' @ [10]])
         evs,
       w)\<close>
  by (simp add: poll_eval demo_defs eval_defs)

lemma demo_poll_error:
  \<open>get_exec_status demo_lib (JInt 42)
      (demo_client n out (reply ''{"error": {"desc": "command not found"}}'' # evs)) w
    = (Inl (QGAProtocolError (ustr ''QGA error: command not found'')),
       demo_client n
         (out @ [ascii ''{"execute": "guest-exec-status", "arguments": {"pid": 42}}'' @ [10]])
         evs,
       w)\<close>
  by (simp add: poll_eval demo_defs eval_defs)

lemma demo_poll_number:
  \<open>get_exec_status demo_lib (JInt 42)
      (demo_client n out (reply ''{"return": 0}'' # evs)) w
    = (Inr (JInt 0),
       demo_client n
         (out @ [ascii ''{"execute": "guest-exec-status", "arguments": {"pid": 42}}'' @ [10]])
         evs,
       w)\<close>
  by (simp add: poll_eval demo_defs eval_defs)

lemma demo_poll_none:
  \<open>get_exec_status demo_lib JNull
      (demo_client n out (reply ''{"return": {"exited": true}}'' # evs)) w
    = (Inr (JObj [(ustr ''exited'', JBool True)]),
       demo_client n
         (out @ [ascii ''{"execute": "guest-exec-status", "arguments": {"pid": null}}'' @ [10]])
         evs,
       w)\<close>
  by (simp add: poll_eval demo_defs eval_defs)

lemma demo_launched:
  "launched demo_lib [ustr ''sleep'', ustr ''60''] (JInt 42) demo_world
     = \<lparr>log = [(INFO, ustr ''Executing command: sleep 60 (PID: 42)'')], slept = [],
        listeners = []\<rparr>"
  by (simp add: launched_def logger_def demo_world_def ustr_def dec_int_def dec_nat.simps)

lemma demo_exec_error:
  \<open>exec_command demo_lib [ustr ''sleep'', ustr ''60''] True None None
      (demo_client n out (reply ''{"error": {"desc": "command not found"}}'' # evs)) w
    = (Inl (QGAProtocolError (ustr ''QGA error: command not found'')),
       demo_client n
         (out @ [ascii (''{"execute": "guest-exec", "arguments": {"path": "sleep", ''
                        @ ''"capture-output": true, "arg": ["60"]}}'') @ [10]]) evs,
       w)\<close>
  by (simp add: exec_command_def ensure_connected_def exec_arguments_def client_send_def
      demo_defs eval_defs)

text \<open>A status poll on a connected client writes its request to the socket.\<close>

lemma client_send_connected:
  assumes "client_send lib command arguments cl = (Inr response, cl2)"
  shows "\<exists>c s. connection cl2 = Some c \<and> conn_sock c = Some s
    \<and> max_poll_retries cl2 = max_poll_retries cl"
proof -
  from assms obtain c1 c1' where c1: "connection cl = Some c1"
    and sc: "send_command lib command arguments c1 = (Inr response, c1')"
    and cl2: "cl2 = cl\<lparr>connection := Some c1'\<rparr>"
    by (auto simp: client_send_def split: option.splits prod.splits)
  from sc obtain s where s: "conn_sock c1 = Some s"
    by (cases "conn_sock c1") (auto simp: send_command_def exchange_def)
  from send_command_socket [OF s sc] cl2 show ?thesis
    by auto
qed

lemma get_exec_status_sends:
  assumes c: "connection cl = Some c" and s: "conn_sock c = Some s" and ok: "send_ok s"
    and g: "get_exec_status lib pid cl w = (r, cl', w')"
  shows "\<exists>c' s'. connection cl' = Some c' \<and> conn_sock c' = Some s'
    \<and> sent s' = sent s
        @ [map of_nat (dumps (build_request (ustr ''guest-exec-status'')
                                (Some [(ustr ''pid'', pid)]))) @ [10]]"
proof -
  let ?args = "Some [(ustr ''pid'', pid)]"
  obtain r0 c0 where sc: "send_command lib (ustr ''guest-exec-status'') ?args c = (r0, c0)"
    by (cases "send_command lib (ustr ''guest-exec-status'') ?args c") auto
  from send_command_socket [OF s sc] ok obtain s1 where c0: "c0 = c\<lparr>conn_sock := Some s1\<rparr>"
    and st: "sent s1 = sent s
        @ [map of_nat (dumps (build_request (ustr ''guest-exec-status'') ?args)) @ [10]]"
    by auto
  from c sc g have "cl' = cl\<lparr>connection := Some c0\<rparr>"
    by (auto simp: get_exec_status_def ensure_connected_def client_send_def split: sum.splits)
  with c0 st show ?thesis by simp
qed

lemma poll_none_bytes:
  \<open>map of_nat (dumps (build_request (ustr ''guest-exec-status'') (Some [(ustr ''pid'', JNull)])))
     = ascii ''{"execute": "guest-exec-status", "arguments": {"pid": null}}''\<close>
  by (simp add: build_request_def dumps_str_def escape_char_def ustr_def ascii_def)

section \<open>The claims\<close>

text \<open>
  C10. An empty argument mapping and no argument mapping give the same request and the
  same wire bytes: \<open>send_command(c, {})\<close> behaves as \<open>send_command(c, None)\<close> for every
  command name \<open>c\<close>, and the request is \<open>{"execute": c}\<close> without an \<open>"arguments"\<close> key.
\<close>

theorem empty_arguments_as_none:
  "build_request command (Some []) = JObj [(ustr ''execute'', JStr command)]
   \<and> build_request command None = JObj [(ustr ''execute'', JStr command)]
   \<and> encode_request command (Some []) = encode_request command None
   \<and> send_command lib command (Some []) c = send_command lib command None c"
proof -
  have b: "build_request command (Some []) = build_request command None"
    by (simp add: build_request_def)
  have e: "encode_request command (Some []) = encode_request command None"
    by (simp add: encode_request_def b)
  have x: "exchange lib command (Some []) c = exchange lib command None c"
    unfolding exchange_def e by (rule refl)
  have "send_command lib command (Some []) c = send_command lib command None c"
    unfolding send_command_def x by (rule refl)
  with e show ?thesis
    by (simp add: build_request_def)
qed

text \<open>
  C5. \<open>disconnect\<close> never raises when called twice in a row or before any \<open>connect\<close>:
  on a connection without a socket, and on a client without a connection, it returns
  and changes nothing; after any \<open>disconnect\<close> a second one is such a call. This holds
  for \<open>QGAConnection.disconnect\<close> and for \<open>QGAClient.disconnect\<close>.
\<close>

theorem disconnect_idempotent:
  "disconnect (QGAConnection path t) w = (Inr (), QGAConnection path t, w)
   \<and> disconnect (c\<lparr>conn_sock := None\<rparr>) w = (Inr (), c\<lparr>conn_sock := None\<rparr>, w)
   \<and> (case disconnect c w of
         (r1, c1, w1) \<Rightarrow> r1 = Inr () \<and> disconnect c1 w1 = (Inr (), c1, w1))
   \<and> client_disconnect (QGAClient path t i n) w = (Inr (), QGAClient path t i n, w)
   \<and> client_disconnect (cl\<lparr>connection := None\<rparr>) w = (Inr (), cl\<lparr>connection := None\<rparr>, w)
   \<and> (case client_disconnect cl w of
         (r1, cl1, w1) \<Rightarrow> r1 = Inr () \<and> client_disconnect cl1 w1 = (Inr (), cl1, w1))"
  by (simp add: disconnect_def client_disconnect_def QGAConnection_def QGAClient_def
      logger_def split: option.splits)

text \<open>
  C1, as the code has it. For a reply that decodes to a JSON object: without an \<open>"error"\<close>
  key the whole reply is returned, whether it has a \<open>"return"\<close> key or not; with an
  \<open>"error"\<close> key whose value is an object, \<open>QGAProtocolError\<close> is raised with the
  description (or \<open>Unknown error\<close>), whether a \<open>"return"\<close> key is present or not.
\<close>

theorem reply_classification:
  assumes "exchange lib command arguments c = (Inr (JObj kvs), c1)"
  shows "(ustr ''error'' \<notin> set (map fst kvs) \<longrightarrow>
            send_command lib command arguments c = (Inr (JObj kvs), c1))
     \<and> (\<forall>e. map_of kvs (ustr ''error'') = Some (JObj e) \<longrightarrow>
            send_command lib command arguments c =
              (Inl (QGAProtocolError (ustr ''QGA error: ''
                 @ py_str lib (case map_of e (ustr ''desc'') of
                                 Some d \<Rightarrow> d | None \<Rightarrow> JStr (ustr ''Unknown error'')))), c1))"
  using assms by (simp add: send_command_def check_reply_no_error check_reply_error)

text \<open>
  A reply with only \<open>"return"\<close> is returned; a reply with both keys raises
  \<open>QGAProtocolError\<close>.
\<close>

theorem reply_classification_witness:
  \<open>fst (send_command demo_lib (ustr ''guest-ping'') None
          (demo_connection [reply ''{"return": {}}'']))
     = Inr (JObj [(ustr ''return'', JObj [])])
   \<and> fst (send_command demo_lib (ustr ''guest-ping'') None
          (demo_connection [reply ''{"return": 1, "error": {"class": "GenericError"}}'']))
     = Inl (QGAProtocolError (ustr ''QGA error: Unknown error''))\<close>
proof -
  let ?ok = "JObj [(ustr ''return'', JObj [])]"
  let ?e = "[(ustr ''class'', JStr (ustr ''GenericError''))]"
  let ?both = "[(ustr ''return'', JInt 1), (ustr ''error'', JObj ?e)]"
  have \<open>fst (exchange demo_lib (ustr ''guest-ping'') None
          (demo_connection [reply ''{"return": {}}''])) = Inr ?ok\<close>
    by (simp add: demo_defs eval_defs)
  then obtain c1 where x1: \<open>exchange demo_lib (ustr ''guest-ping'') None
          (demo_connection [reply ''{"return": {}}'']) = (Inr ?ok, c1)\<close>
    by (metis prod.collapse)
  have \<open>fst (exchange demo_lib (ustr ''guest-ping'') None
          (demo_connection [reply ''{"return": 1, "error": {"class": "GenericError"}}'']))
        = Inr (JObj ?both)\<close>
    by (simp add: demo_defs eval_defs)
  then obtain c2 where x2: \<open>exchange demo_lib (ustr ''guest-ping'') None
          (demo_connection [reply ''{"return": 1, "error": {"class": "GenericError"}}''])
        = (Inr (JObj ?both), c2)\<close>
    by (metis prod.collapse)
  have k1: "ustr ''error'' \<notin> set (map fst [(ustr ''return'', JObj [])])"
    by (simp add: ustr_def)
  have k2: "map_of ?both (ustr ''error'') = Some (JObj ?e)"
    by (simp add: ustr_def)
  have d: "map_of ?e (ustr ''desc'') = None"
    by (simp add: ustr_def)
  from reply_classification [OF x1] k1
  have r1: \<open>fst (send_command demo_lib (ustr ''guest-ping'') None
          (demo_connection [reply ''{"return": {}}''])) = Inr ?ok\<close>
    by simp
  from reply_classification [OF x2] k2
  have \<open>fst (send_command demo_lib (ustr ''guest-ping'') None
          (demo_connection [reply ''{"return": 1, "error": {"class": "GenericError"}}'']))
     = Inl (QGAProtocolError (ustr ''QGA error: ''
         @ py_str demo_lib (case map_of ?e (ustr ''desc'') of
                        Some d \<Rightarrow> d | None \<Rightarrow> JStr (ustr ''Unknown error''))))\<close>
    by simp
  then have r2: \<open>fst (send_command demo_lib (ustr ''guest-ping'') None
          (demo_connection [reply ''{"return": 1, "error": {"class": "GenericError"}}'']))
     = Inl (QGAProtocolError (ustr ''QGA error: Unknown error''))\<close>
    unfolding d by (simp add: ustr_def)
  from r1 r2 show ?thesis by (rule conjI)
qed

text \<open>
  C1 as stated fails: the reply \<open>{}\<close>, with neither key, is returned and nothing is raised.
\<close>

theorem empty_reply_counterexample:
  \<open>fst (send_command demo_lib (ustr ''guest-ping'') None (demo_connection [reply ''{}'']))
     = Inr (JObj [])\<close>
  by (simp add: demo_defs eval_defs)

text \<open>
  C6. For a reply whose \<open>"error"\<close> object has the description \<open>d\<close>, a string,
  \<open>send_command\<close> raises \<open>QGAProtocolError\<close> with the message \<open>QGA error: d\<close>, which
  contains \<open>d\<close> verbatim.
\<close>

theorem error_description_verbatim:
  assumes "exchange lib command arguments c = (Inr (JObj kvs), c1)"
    and "map_of kvs (ustr ''error'') = Some (JObj e)"
    and "map_of e (ustr ''desc'') = Some (JStr d)"
  shows "send_command lib command arguments c
           = (Inl (QGAProtocolError (ustr ''QGA error: '' @ d)), c1)
         \<and> str_contains d (ustr ''QGA error: '' @ d)"
  using assms
  by (simp add: send_command_def check_reply_error str_contains_suffix)

text \<open>The reply \<open>{"error": {"desc": "command not found"}}\<close>.\<close>

theorem error_description_verbatim_witness:
  \<open>fst (send_command demo_lib (ustr ''guest-exec'') None
          (demo_connection [reply ''{"error": {"desc": "command not found"}}'']))
     = Inl (QGAProtocolError (ustr ''QGA error: command not found''))
   \<and> str_contains (ustr ''command not found'') (ustr ''QGA error: command not found'')\<close>
proof -
  let ?e = "[(ustr ''desc'', JStr (ustr ''command not found''))]"
  let ?kvs = "[(ustr ''error'', JObj ?e)]"
  have \<open>fst (exchange demo_lib (ustr ''guest-exec'') None
          (demo_connection [reply ''{"error": {"desc": "command not found"}}''])) = Inr (JObj ?kvs)\<close>
    by (simp add: demo_defs eval_defs)
  then obtain c1 where x: \<open>exchange demo_lib (ustr ''guest-exec'') None
          (demo_connection [reply ''{"error": {"desc": "command not found"}}''])
        = (Inr (JObj ?kvs), c1)\<close>
    by (metis prod.collapse)
  have k: "map_of ?kvs (ustr ''error'') = Some (JObj ?e)"
    by simp
  have d: "map_of ?e (ustr ''desc'') = Some (JStr (ustr ''command not found''))"
    by simp
  have j: "ustr ''QGA error: '' @ ustr ''command not found'' = ustr ''QGA error: command not found''"
    by (simp add: ustr_def)
  from error_description_verbatim [OF x k d] show ?thesis
    unfolding j by simp
qed

text \<open>
  C3, as the code has it. On a connected socket whose \<open>sendall\<close> succeeds,
  \<open>send_command\<close> writes exactly one message: the document
  \<open>{"execute": <command>}\<close>, with an \<open>"arguments"\<close> key exactly when a non-empty
  argument mapping was supplied, followed by one newline byte. The document is printable
  ASCII, so the newline is the only one, and the bytes depend on the command and the
  arguments alone.
\<close>

theorem request_encoding:
  assumes "conn_sock c = Some s" and "send_ok s"
    and "send_command lib command arguments c = (r, c1)"
  shows \<open>\<exists>s1. conn_sock c1 = Some s1
      \<and> sent s1 = sent s @ [map of_nat (dumps (build_request command arguments)) @ [10]]
      \<and> printable (dumps (build_request command arguments))
      \<and> encode_request command arguments
          = Some (map of_nat (dumps (build_request command arguments)) @ [10])
      \<and> dumps (build_request command arguments)
          = ustr ''{"execute": '' @ dumps_str command
            @ (case arguments of
                 None \<Rightarrow> []
               | Some args \<Rightarrow>
                   if args \<noteq> [] then ustr '', "arguments": '' @ dumps (JObj args) else [])
            @ ustr ''}''
      \<and> py_in (ustr ''arguments'') (build_request command arguments)
          = Inr (arguments \<noteq> None \<and> arguments \<noteq> Some [])\<close>
proof -
  from send_command_socket [OF assms(1) assms(3)] assms(2)
  obtain s1 where "c1 = c\<lparr>conn_sock := Some s1\<rparr>"
    and "sent s1 = sent s @ [map of_nat (dumps (build_request command arguments)) @ [10]]"
    by auto
  moreover have "py_in (ustr ''arguments'') (build_request command arguments)
      = Inr (arguments \<noteq> None \<and> arguments \<noteq> Some [])"
    by (cases arguments) (auto simp: build_request_def ustr_def)
  ultimately show ?thesis
    using dumps_printable(1) [of "build_request command arguments"]
      encode_request_eq [of command arguments] dumps_request_form [of command arguments]
    by simp
qed

text \<open>The status poll for process 42.\<close>

theorem request_encoding_witness:
  \<open>map_option sent (conn_sock (snd (send_command demo_lib (ustr ''guest-exec-status'')
       (Some [(ustr ''pid'', JInt 42)])
       (demo_connection [reply ''{"return": {"exited": false}}'']))))
     = Some [ascii ''{"execute": "guest-exec-status", "arguments": {"pid": 42}}'' @ [10]]\<close>
proof -
  let ?s = "\<lparr>sock_timeout = 30, incoming = [reply ''{\"return\": {\"exited\": false}}''],
              send_faults = [], sent = []\<rparr>"
  let ?c = "demo_connection [reply ''{\"return\": {\"exited\": false}}'']"
  let ?args = "Some [(ustr ''pid'', JInt 42)]"
  have c: "conn_sock ?c = Some ?s"
    by (simp add: demo_connection_def)
  have ok: "send_ok ?s"
    by (simp add: send_ok_def)
  obtain r c1 where x: "send_command demo_lib (ustr ''guest-exec-status'') ?args ?c = (r, c1)"
    by (cases "send_command demo_lib (ustr ''guest-exec-status'') ?args ?c") auto
  from request_encoding [OF c ok x] obtain s1 where s1: "conn_sock c1 = Some s1"
    and "sent s1 = sent ?s
      @ [map of_nat (dumps (build_request (ustr ''guest-exec-status'') ?args)) @ [10]]"
    by blast
  moreover have \<open>map of_nat (dumps (build_request (ustr ''guest-exec-status'') ?args))
      = ascii ''{"execute": "guest-exec-status", "arguments": {"pid": 42}}''\<close>
    by (simp add: demo_defs eval_defs)
  ultimately have \<open>sent s1
      = [ascii ''{"execute": "guest-exec-status", "arguments": {"pid": 42}}'' @ [10]]\<close>
    by simp
  with s1 x show ?thesis by simp
qed

text \<open>
  C3 as stated fails: for the supplied mapping \<open>{}\<close> the document has no \<open>"arguments"\<close>
  key.
\<close>

theorem supplied_empty_arguments_counterexample:
  \<open>map_option sent (conn_sock (snd (send_command demo_lib (ustr ''guest-ping'') (Some [])
       (demo_connection [reply ''{"return": {}}'']))))
     = Some [ascii ''{"execute": "guest-ping"}'' @ [10]]\<close>
  by (simp add: demo_defs eval_defs)

text \<open>
  C9. When the socket's timeout is the configured one before \<open>send_command\<close>, as
  \<open>connect\<close> leaves it, it is the configured one afterwards, on every path: the
  \<open>finally\<close> clause restores it after the short second read.
\<close>

theorem timeout_restored:
  assumes "conn_sock c = Some s" and "sock_timeout s = conn_timeout c"
    and "send_command lib command arguments c = (r, c1)"
  shows "\<exists>s1. conn_sock c1 = Some s1 \<and> sock_timeout s1 = conn_timeout c1
    \<and> conn_timeout c1 = conn_timeout c"
  using send_command_socket [OF assms(1) assms(3)] assms(2) by auto

text \<open>
  The second read ends with its deadline, with the close of the peer, and with data
  followed by an error of the socket.
\<close>

theorem timeout_restored_witness:
  \<open>map_option sock_timeout (conn_sock (snd (send_command demo_lib (ustr ''guest-ping'') None
       (demo_connection [Data (ascii ''{"return": {}''), RecvTimeout])))) = Some 30
   \<and> map_option sock_timeout (conn_sock (snd (send_command demo_lib (ustr ''guest-ping'') None
       (demo_connection [Data (ascii ''{"return": {}''), Data []])))) = Some 30
   \<and> map_option sock_timeout (conn_sock (snd (send_command demo_lib (ustr ''guest-ping'') None
       (demo_connection [Data (ascii ''{"return": {}''), Data (ascii ''}''),
          RecvError (ustr ''Connection reset by peer'')])))) = Some 30\<close>
proof -
  have w: "map_option sock_timeout
      (conn_sock (snd (send_command demo_lib (ustr ''guest-ping'') None (demo_connection evs))))
    = Some 30" for evs
  proof -
    let ?s = "\<lparr>sock_timeout = 30, incoming = evs, send_faults = [], sent = []\<rparr>"
    let ?c = "demo_connection evs"
    have c: "conn_sock ?c = Some ?s" and t: "sock_timeout ?s = conn_timeout ?c"
      by (simp_all add: demo_connection_def)
    obtain r c1 where x: "send_command demo_lib (ustr ''guest-ping'') None ?c = (r, c1)"
      by (cases "send_command demo_lib (ustr ''guest-ping'') None ?c") auto
    from timeout_restored [OF c t x] obtain s1 where "conn_sock c1 = Some s1"
      and "sock_timeout s1 = conn_timeout ?c"
      by auto
    with x show ?thesis by (simp add: demo_connection_def)
  qed
  show ?thesis by (simp add: w)
qed

text \<open>
  C2, as the code has it. When the launch succeeds, the poll interval is not negative
  and each of the \<open>N = max_poll_retries\<close> polls returns a status that does not report
  \<open>exited\<close>, \<open>run_command\<close> raises \<open>QGAError\<close>, the base class of the module's
  exceptions, after exactly \<open>N\<close> polls (none when \<open>N\<close> is negative), each followed by a
  sleep of the interval; the message reports the number of polls times the interval.
\<close>

theorem poll_bound:
  assumes "exec_command lib command capture_output input_data env cl w = (Inr pid, cl1, w1)"
    and "never_exits lib pid (nat (max_poll_retries cl)) cl1 (launched lib command pid w1)"
    and "0 \<le> poll_interval cl"
  shows "run_command lib command capture_output input_data env cl w
      = (Inl (QGAError (ustr ''Command execution timeout after ''
           @ str_elapsed lib (max 0 (max_poll_retries cl)) (poll_interval cl)
           @ ustr '' seconds'')),
         after_polls lib pid (nat (max_poll_retries cl)) cl1 (launched lib command pid w1))
    \<and> slept (snd (after_polls lib pid (nat (max_poll_retries cl)) cl1
                 (launched lib command pid w1)))
      = slept w @ replicate (nat (max_poll_retries cl)) (poll_interval cl)"
proof -
  note f = exec_command_frame [OF assms(1)]
  let ?w2 = "launched lib command pid w1"
  let ?k = "nat (max_poll_retries cl)"
  from f assms(2,3) have ne: "never_exits lib pid (nat (max_poll_retries cl1)) cl1 ?w2"
    and i: "0 \<le> poll_interval cl1"
    by simp_all
  obtain cl' w' where a: "after_polls lib pid ?k cl1 ?w2 = (cl', w')"
    by (cases "after_polls lib pid ?k cl1 ?w2") auto
  from after_polls_frame [OF a] f
  have "slept w' = slept w @ replicate ?k (poll_interval cl)"
    by (simp add: launched_def logger_def)
  with poll_loop_exhausted [OF ne i] assms(1) f a show ?thesis
    by (simp add: run_command_def)
qed

text \<open>Two polls at an interval of 0.1.\<close>

theorem poll_bound_witness:
  \<open>run_command demo_lib [ustr ''sleep'', ustr ''60''] True None None
      (demo_client 2 []
         [reply ''{"return": {"pid": 42}}'', reply ''{"return": {"exited": false}}'',
          reply ''{"return": {"exited": false}}''])
      demo_world
    = (Inl (QGAError (ustr ''Command execution timeout after 0.2 seconds'')),
       demo_client 2
         [ascii (''{"execute": "guest-exec", "arguments": {"path": "sleep", ''
                 @ ''"capture-output": true, "arg": ["60"]}}'') @ [10],
          ascii ''{"execute": "guest-exec-status", "arguments": {"pid": 42}}'' @ [10],
          ascii ''{"execute": "guest-exec-status", "arguments": {"pid": 42}}'' @ [10]]
         [],
       \<lparr>log = [(INFO, ustr ''Executing command: sleep 60 (PID: 42)'')],
        slept = [1 / 10, 1 / 10], listeners = []\<rparr>)\<close>
proof -
  let ?evs = \<open>[reply ''{"return": {"exited": false}}'', reply ''{"return": {"exited": false}}'']\<close>
  let ?cl = \<open>demo_client 2 [] (reply ''{"return": {"pid": 42}}'' # ?evs)\<close>
  let ?cmd = "[ustr ''sleep'', ustr ''60'']"
  let ?cl1 = \<open>demo_client 2
      ([] @ [ascii (''{"execute": "guest-exec", "arguments": {"path": "sleep", ''
                    @ ''"capture-output": true, "arg": ["60"]}}'') @ [10]]) ?evs\<close>
  have x: "exec_command demo_lib ?cmd True None None ?cl demo_world
      = (Inr (JInt 42), ?cl1, demo_world)"
    by (rule demo_exec)
  have k: "nat (max_poll_retries ?cl) = Suc (Suc 0)"
    by (simp add: demo_client_sel)
  have ne: "never_exits demo_lib (JInt 42) (nat (max_poll_retries ?cl)) ?cl1
      (launched demo_lib ?cmd (JInt 42) demo_world)"
    unfolding k by (simp add: demo_poll_running demo_client_sel ustr_def)
  have i: "0 \<le> poll_interval ?cl"
    by (simp add: demo_client_sel)
  have e: "str_elapsed demo_lib (max 0 (max_poll_retries ?cl)) (poll_interval ?cl) = ustr ''0.2''"
    by (simp add: demo_client_sel demo_lib_def)
  have m: "ustr ''Command execution timeout after '' @ ustr ''0.2'' @ ustr '' seconds''
      = ustr ''Command execution timeout after 0.2 seconds''"
    by (simp add: ustr_def)
  have a: \<open>after_polls demo_lib (JInt 42) (Suc (Suc 0)) ?cl1
        (launched demo_lib ?cmd (JInt 42) demo_world)
      = (demo_client 2
           [ascii (''{"execute": "guest-exec", "arguments": {"path": "sleep", ''
                   @ ''"capture-output": true, "arg": ["60"]}}'') @ [10],
            ascii ''{"execute": "guest-exec-status", "arguments": {"pid": 42}}'' @ [10],
            ascii ''{"execute": "guest-exec-status", "arguments": {"pid": 42}}'' @ [10]]
           [],
         \<lparr>log = [(INFO, ustr ''Executing command: sleep 60 (PID: 42)'')],
          slept = [1 / 10, 1 / 10], listeners = []\<rparr>)\<close>
    by (simp add: demo_poll_running demo_client_sel demo_launched)
  from poll_bound [OF x ne i] show ?thesis
    unfolding e m k a by simp
qed

text \<open>
  C2 as stated fails: the error raised is \<open>QGAError\<close> itself; the module has no
  exception class for a timeout.
\<close>

theorem timeout_is_base_error_counterexample:
  \<open>fst (run_command demo_lib [ustr ''sleep'', ustr ''60''] True None None
      (demo_client 1 []
         [reply ''{"return": {"pid": 42}}'', reply ''{"return": {"exited": false}}''])
      demo_world)
    = Inl (QGAError (ustr ''Command execution timeout after 0.1 seconds''))\<close>
proof -
  have \<open>fst (run_command demo_lib [ustr ''sleep'', ustr ''60''] True None None
      (demo_client 1 []
         [reply ''{"return": {"pid": 42}}'', reply ''{"return": {"exited": false}}''])
      demo_world)
    = Inl (QGAError (ustr ''Command execution timeout after ''
        @ str_elapsed demo_lib 1 (1 / 10) @ ustr '' seconds''))\<close>
    by (simp add: run_command_def demo_exec poll_loop.simps demo_client_sel demo_poll_running
        sleep_def)
  then show ?thesis
    by (simp add: demo_lib_def ustr_def)
qed

text \<open>
  C4. When a poll of \<open>run_command\<close> returns a status whose \<open>exited\<close> is true and that
  has no \<open>"exitcode"\<close> field, \<open>run_command\<close> returns a result whose exit code is \<open>-1\<close>;
  it does not raise. The poll may be the first or come after any number of polls that
  did not see the command exit.
\<close>

theorem missing_exitcode_default:
  assumes "poll_state lib command capture_output input_data env cl w k = Some (pid, cl2, w3)"
    and "get_exec_status lib pid cl2 w3 = (Inr (JObj kvs), cl3, w4)"
    and "map_of kvs (ustr ''exited'') = Some ex" and "truthy ex"
    and "map_of kvs (ustr ''exitcode'') = None"
  shows "\<exists>r w5. run_command lib command capture_output input_data env cl w = (Inr r, cl3, w5)
    \<and> exitcode r = JInt (- 1) \<and> exited r"
proof -
  from run_command_poll_state [OF assms(1)]
  have run: "run_command lib command capture_output input_data env cl w
      = poll_loop lib pid (int k) cl2 w3"
    and lt: "int k < max_poll_retries cl2"
    by simp_all
  from collect_result_obj [of lib kvs w4] assms(5)
  obtain r w5 where "collect_result lib (JObj kvs) w4 = (Inr r, w5)"
    and "exitcode r = JInt (- 1)" and "exited r"
    by auto
  with poll_loop_exited [OF lt assms(2,3,4)] run show ?thesis
    by simp
qed

text \<open>The second poll reports \<open>{"exited": true}\<close>.\<close>

theorem missing_exitcode_default_witness:
  \<open>(case fst (run_command demo_lib [ustr ''sleep'', ustr ''60''] True None None
      (demo_client 5 []
         [reply ''{"return": {"pid": 42}}'', reply ''{"return": {"exited": false}}'',
          reply ''{"return": {"exited": true}}''])
      demo_world) of
      Inl e \<Rightarrow> False
    | Inr r \<Rightarrow> exitcode r = JInt (- 1) \<and> exited r)\<close>
proof -
  let ?cmd = "[ustr ''sleep'', ustr ''60'']"
  let ?cl = \<open>demo_client 5 []
         [reply ''{"return": {"pid": 42}}'', reply ''{"return": {"exited": false}}'',
          reply ''{"return": {"exited": true}}'']\<close>
  let ?out = \<open>[ascii (''{"execute": "guest-exec", "arguments": {"path": "sleep", ''
                      @ ''"capture-output": true, "arg": ["60"]}}'') @ [10],
               ascii ''{"execute": "guest-exec-status", "arguments": {"pid": 42}}'' @ [10]]\<close>
  let ?cl2 = \<open>demo_client 5 ?out [reply ''{"return": {"exited": true}}'']\<close>
  let ?w3 = "\<lparr>log = [(INFO, ustr ''Executing command: sleep 60 (PID: 42)'')],
              slept = [1 / 10], listeners = []\<rparr>"
  let ?kvs = "[(ustr ''exited'', JBool True)]"
  have ps: "poll_state demo_lib ?cmd True None None ?cl demo_world (Suc 0)
      = Some (JInt 42, ?cl2, ?w3)"
    by (simp add: poll_state_def demo_exec demo_poll_running demo_client_sel demo_launched)
  have g: \<open>get_exec_status demo_lib (JInt 42) ?cl2 ?w3
      = (Inr (JObj ?kvs),
         demo_client 5
           (?out @ [ascii ''{"execute": "guest-exec-status", "arguments": {"pid": 42}}'' @ [10]])
           [],
         ?w3)\<close>
    by (rule demo_poll_exited)
  have e: "map_of ?kvs (ustr ''exited'') = Some (JBool True)" and t: "truthy (JBool True)"
    and c: "map_of ?kvs (ustr ''exitcode'') = None"
    by (simp_all add: ustr_def)
  from missing_exitcode_default [OF ps g e t c] show ?thesis
    by auto
qed

text \<open>
  C7. When a poll of \<open>run_command\<close> returns a status whose \<open>exited\<close> is true,
  \<open>run_command\<close> returns the result with the exit code of the status; a stream whose
  \<open>"out-data"\<close> or \<open>"err-data"\<close> field fails to decode is the empty string and a warning
  is logged. The other failures are raised to the caller: a failure of the launch, a
  failure of a poll, and a status that is not a dict.
\<close>

theorem decode_failure_recovered:
  "(poll_state lib command capture_output input_data env cl w k = Some (pid, cl2, w3)
      \<and> get_exec_status lib pid cl2 w3 = (Inr (JObj kvs), cl3, w4)
      \<and> map_of kvs (ustr ''exited'') = Some ex \<and> truthy ex
    \<longrightarrow> (\<exists>r w5. run_command lib command capture_output input_data env cl w = (Inr r, cl3, w5)
          \<and> exitcode r
              = (case map_of kvs (ustr ''exitcode'') of Some v \<Rightarrow> v | None \<Rightarrow> JInt (- 1))
          \<and> exited r
          \<and> (\<forall>v m. map_of kvs (ustr ''out-data'') = Some v \<and> b64decode_text lib v = Inl m
                \<longrightarrow> stdout r = []
                  \<and> (WARNING, ustr ''Failed to decode stdout: '' @ m) \<in> set (log w5))
          \<and> (\<forall>v m. map_of kvs (ustr ''err-data'') = Some v \<and> b64decode_text lib v = Inl m
                \<longrightarrow> stderr r = []
                  \<and> (WARNING, ustr ''Failed to decode stderr: '' @ m) \<in> set (log w5))))
   \<and> (exec_command lib command capture_output input_data env cl w = (Inl e, cl1, w1)
    \<longrightarrow> run_command lib command capture_output input_data env cl w = (Inl e, cl1, w1))
   \<and> (poll_state lib command capture_output input_data env cl w k = Some (pid, cl2, w3)
      \<and> get_exec_status lib pid cl2 w3 = (Inl e, cl3, w4)
    \<longrightarrow> run_command lib command capture_output input_data env cl w = (Inl e, cl3, w4))
   \<and> (poll_state lib command capture_output input_data env cl w k = Some (pid, cl2, w3)
      \<and> get_exec_status lib pid cl2 w3 = (Inr status, cl3, w4)
      \<and> py_get status (ustr ''exited'') (JBool False) = Inl e
    \<longrightarrow> run_command lib command capture_output input_data env cl w = (Inl e, cl3, w4))"
proof (intro conjI impI)
  assume a: "poll_state lib command capture_output input_data env cl w k = Some (pid, cl2, w3)
      \<and> get_exec_status lib pid cl2 w3 = (Inr (JObj kvs), cl3, w4)
      \<and> map_of kvs (ustr ''exited'') = Some ex \<and> truthy ex"
  then have ps: "poll_state lib command capture_output input_data env cl w k = Some (pid, cl2, w3)"
    and g: "get_exec_status lib pid cl2 w3 = (Inr (JObj kvs), cl3, w4)"
    and e: "map_of kvs (ustr ''exited'') = Some ex" and t: "truthy ex"
    by simp_all
  from run_command_poll_state [OF ps]
  have run: "run_command lib command capture_output input_data env cl w
      = poll_loop lib pid (int k) cl2 w3"
    and lt: "int k < max_poll_retries cl2"
    by simp_all
  from collect_result_obj [of lib kvs w4]
  obtain r w5 where c: "collect_result lib (JObj kvs) w4 = (Inr r, w5)"
    and r: "exitcode r
        = (case map_of kvs (ustr ''exitcode'') of Some v \<Rightarrow> v | None \<Rightarrow> JInt (- 1))"
      "exited r"
      "\<forall>v m. map_of kvs (ustr ''out-data'') = Some v \<and> b64decode_text lib v = Inl m
          \<longrightarrow> stdout r = [] \<and> (WARNING, ustr ''Failed to decode stdout: '' @ m) \<in> set (log w5)"
      "\<forall>v m. map_of kvs (ustr ''err-data'') = Some v \<and> b64decode_text lib v = Inl m
          \<longrightarrow> stderr r = [] \<and> (WARNING, ustr ''Failed to decode stderr: '' @ m) \<in> set (log w5)"
    by blast
  from poll_loop_exited [OF lt g e t] run c
  have "run_command lib command capture_output input_data env cl w = (Inr r, cl3, w5)"
    by simp
  with r show "\<exists>r w5. run_command lib command capture_output input_data env cl w = (Inr r, cl3, w5)
          \<and> exitcode r
              = (case map_of kvs (ustr ''exitcode'') of Some v \<Rightarrow> v | None \<Rightarrow> JInt (- 1))
          \<and> exited r
          \<and> (\<forall>v m. map_of kvs (ustr ''out-data'') = Some v \<and> b64decode_text lib v = Inl m
                \<longrightarrow> stdout r = []
                  \<and> (WARNING, ustr ''Failed to decode stdout: '' @ m) \<in> set (log w5))
          \<and> (\<forall>v m. map_of kvs (ustr ''err-data'') = Some v \<and> b64decode_text lib v = Inl m
                \<longrightarrow> stderr r = []
                  \<and> (WARNING, ustr ''Failed to decode stderr: '' @ m) \<in> set (log w5))"
    by blast
next
  assume "exec_command lib command capture_output input_data env cl w = (Inl e, cl1, w1)"
  then show "run_command lib command capture_output input_data env cl w = (Inl e, cl1, w1)"
    by (simp add: run_command_def)
next
  assume a: "poll_state lib command capture_output input_data env cl w k = Some (pid, cl2, w3)
      \<and> get_exec_status lib pid cl2 w3 = (Inl e, cl3, w4)"
  from run_command_poll_state [of lib command capture_output input_data env cl w k pid cl2 w3] a
  have run: "run_command lib command capture_output input_data env cl w
      = poll_loop lib pid (int k) cl2 w3"
    and lt: "int k < max_poll_retries cl2"
    by simp_all
  from a have "get_exec_status lib pid cl2 w3 = (Inl e, cl3, w4)" by simp
  from poll_loop_poll_error [OF lt this] run
  show "run_command lib command capture_output input_data env cl w = (Inl e, cl3, w4)"
    by simp
next
  assume a: "poll_state lib command capture_output input_data env cl w k = Some (pid, cl2, w3)
      \<and> get_exec_status lib pid cl2 w3 = (Inr status, cl3, w4)
      \<and> py_get status (ustr ''exited'') (JBool False) = Inl e"
  from run_command_poll_state [of lib command capture_output input_data env cl w k pid cl2 w3] a
  have run: "run_command lib command capture_output input_data env cl w
      = poll_loop lib pid (int k) cl2 w3"
    and lt: "int k < max_poll_retries cl2"
    by simp_all
  from a have "get_exec_status lib pid cl2 w3 = (Inr status, cl3, w4)"
    and "py_get status (ustr ''exited'') (JBool False) = Inl e"
    by simp_all
  from poll_loop_status_error [OF lt this] run
  show "run_command lib command capture_output input_data env cl w = (Inl e, cl3, w4)"
    by simp
qed

text \<open>
  A status with the undecodable \<open>"out-data": "abc"\<close> and exit code 3; an error reply to
  the launch; an error reply to the poll; a status that is a number.
\<close>

theorem decode_failure_recovered_witness:
  \<open>(case run_command demo_lib [ustr ''sleep'', ustr ''60''] True None None
      (demo_client 5 []
         [reply ''{"return": {"pid": 42}}'',
          reply ''{"return": {"exited": true, "exitcode": 3, "out-data": "abc"}}''])
      demo_world of
      (Inl e, cl', w') \<Rightarrow> False
    | (Inr r, cl', w') \<Rightarrow>
        exitcode r = JInt 3 \<and> exited r \<and> stdout r = []
        \<and> (WARNING, ustr ''Failed to decode stdout: Incorrect padding'') \<in> set (log w'))
   \<and> fst (run_command demo_lib [ustr ''sleep'', ustr ''60''] True None None
        (demo_client 5 [] [reply ''{"error": {"desc": "command not found"}}''])
        demo_world)
      = Inl (QGAProtocolError (ustr ''QGA error: command not found''))
   \<and> fst (run_command demo_lib [ustr ''sleep'', ustr ''60''] True None None
        (demo_client 5 []
           [reply ''{"return": {"pid": 42}}'', reply ''{"error": {"desc": "command not found"}}''])
        demo_world)
      = Inl (QGAProtocolError (ustr ''QGA error: command not found''))
   \<and> fst (run_command demo_lib [ustr ''sleep'', ustr ''60''] True None None
        (demo_client 5 [] [reply ''{"return": {"pid": 42}}'', reply ''{"return": 0}''])
        demo_world)
      = Inl AttributeError\<close>
proof -
  let ?cmd = "[ustr ''sleep'', ustr ''60'']"
  let ?out = \<open>[ascii (''{"execute": "guest-exec", "arguments": {"path": "sleep", ''
                      @ ''"capture-output": true, "arg": ["60"]}}'') @ [10]]\<close>
  let ?w3 = "\<lparr>log = [(INFO, ustr ''Executing command: sleep 60 (PID: 42)'')],
              slept = [], listeners = []\<rparr>"
  let ?kvs = "[(ustr ''exited'', JBool True), (ustr ''exitcode'', JInt 3),
               (ustr ''out-data'', JStr (ustr ''abc''))]"
  have ps: "poll_state demo_lib ?cmd True None None
        (demo_client 5 [] (reply ''{\"return\": {\"pid\": 42}}'' # evs)) demo_world 0
      = Some (JInt 42, demo_client 5 ?out evs, ?w3)" for evs
    by (simp add: poll_state_def demo_exec demo_client_sel demo_launched)
  have e: "map_of ?kvs (ustr ''exited'') = Some (JBool True)" and t: "truthy (JBool True)"
    and c: "map_of ?kvs (ustr ''exitcode'') = Some (JInt 3)"
    and o: "map_of ?kvs (ustr ''out-data'') = Some (JStr (ustr ''abc''))"
    by (simp_all add: ustr_def)
  have b: "b64decode_text demo_lib (JStr (ustr ''abc'')) = Inl (ustr ''Incorrect padding'')"
    by (simp add: demo_lib_def)
  have m: "ustr ''Failed to decode stdout: '' @ ustr ''Incorrect padding''
      = ustr ''Failed to decode stdout: Incorrect padding''"
    by (simp add: ustr_def)
  have n: "py_get (JInt 0) (ustr ''exited'') (JBool False) = Inl AttributeError"
    by simp
  note th = decode_failure_recovered [where lib = demo_lib and command = ?cmd
      and capture_output = True and input_data = None and env = None and w = demo_world]
  note th1 = th [THEN conjunct1, THEN mp]
  note th2 = th [THEN conjunct2, THEN conjunct1, THEN mp]
  note th3 = th [THEN conjunct2, THEN conjunct2, THEN conjunct1, THEN mp]
  note th4 = th [THEN conjunct2, THEN conjunct2, THEN conjunct2, THEN mp]
  from th1 [OF conjI [OF ps conjI [OF demo_poll_garbled conjI [OF e t]]]]
  obtain r cl' w5 where "run_command demo_lib ?cmd True None None
        (demo_client 5 []
           [reply ''{\"return\": {\"pid\": 42}}'',
            reply ''{\"return\": {\"exited\": true, \"exitcode\": 3, \"out-data\": \"abc\"}}''])
        demo_world
      = (Inr r, cl', w5)"
    and "exitcode r = (case map_of ?kvs (ustr ''exitcode'') of Some v \<Rightarrow> v | None \<Rightarrow> JInt (- 1))"
    and "exited r"
    and "\<forall>v m. map_of ?kvs (ustr ''out-data'') = Some v \<and> b64decode_text demo_lib v = Inl m
          \<longrightarrow> stdout r = [] \<and> (WARNING, ustr ''Failed to decode stdout: '' @ m) \<in> set (log w5)"
    by blast
  with c o b m have p1: \<open>(case run_command demo_lib ?cmd True None None
      (demo_client 5 []
         [reply ''{"return": {"pid": 42}}'',
          reply ''{"return": {"exited": true, "exitcode": 3, "out-data": "abc"}}''])
      demo_world of
      (Inl e, cl', w') \<Rightarrow> False
    | (Inr r, cl', w') \<Rightarrow>
        exitcode r = JInt 3 \<and> exited r \<and> stdout r = []
        \<and> (WARNING, ustr ''Failed to decode stdout: Incorrect padding'') \<in> set (log w'))\<close>
    by auto
  from th2 [OF demo_exec_error]
  have p2: \<open>fst (run_command demo_lib ?cmd True None None
        (demo_client 5 [] [reply ''{"error": {"desc": "command not found"}}''])
        demo_world)
      = Inl (QGAProtocolError (ustr ''QGA error: command not found''))\<close>
    by simp
  from th3 [OF conjI [OF ps demo_poll_error]]
  have p3: \<open>fst (run_command demo_lib ?cmd True None None
        (demo_client 5 []
           [reply ''{"return": {"pid": 42}}'', reply ''{"error": {"desc": "command not found"}}''])
        demo_world)
      = Inl (QGAProtocolError (ustr ''QGA error: command not found''))\<close>
    by simp
  from th4 [OF conjI [OF ps conjI [OF demo_poll_number n]]]
  have p4: \<open>fst (run_command demo_lib ?cmd True None None
        (demo_client 5 [] [reply ''{"return": {"pid": 42}}'', reply ''{"return": 0}''])
        demo_world)
      = Inl AttributeError\<close>
    by simp
  from p1 p2 p3 p4 show ?thesis by blast
qed

text \<open>
  C8, as the code has it. When the reply to \<open>guest-exec\<close> is a success whose
  \<open>"return"\<close> payload has no \<open>"pid"\<close> field, \<open>exec_command\<close> returns \<open>None\<close> and does
  not raise, and \<open>run_command\<close> logs the handle \<open>None\<close>. When \<open>max_poll_retries\<close> is
  positive, \<open>run_command\<close> then makes its first poll with the handle \<open>None\<close>: its
  outcome is decided by \<open>get_exec_status(None)\<close>, whose request, when the send succeeds,
  is \<open>{"execute": "guest-exec-status", "arguments": {"pid": null}}\<close>.
\<close>

theorem missing_pid_polls_none:
  assumes "ensure_connected cl w = (Inr (), cl1, w1)"
    and "exec_arguments command capture_output input_data env = Inr arguments"
    and "client_send lib (ustr ''guest-exec'') (Some arguments) cl1 = (Inr response, cl2)"
    and "py_get response (ustr ''return'') (JObj []) = Inr (JObj ret)"
    and "map_of ret (ustr ''pid'') = None"
    and "0 < max_poll_retries cl"
    and "get_exec_status lib JNull cl2 (launched lib command JNull w1) = (st, cl3, w3)"
  shows \<open>exec_command lib command capture_output input_data env cl w = (Inr JNull, cl2, w1)
    \<and> launched lib command JNull w1
        = logger INFO (ustr ''Executing command: '' @ join_space command @ ustr '' (PID: None)'') w1
    \<and> run_command lib command capture_output input_data env cl w
        = (case st of
             Inl e \<Rightarrow> (Inl e, cl3, w3)
           | Inr status \<Rightarrow>
               (case py_get status (ustr ''exited'') (JBool False) of
                  Inl e \<Rightarrow> (Inl e, cl3, w3)
                | Inr ex \<Rightarrow>
                    (if truthy ex then
                       (case collect_result lib status w3 of (r, w4) \<Rightarrow> (r, cl3, w4))
                     else
                       (case sleep (poll_interval cl3) w3 of
                          None \<Rightarrow> (Inl ValueError, cl3, w3)
                        | Some w4 \<Rightarrow> poll_loop lib JNull 1 cl3 w4))))
    \<and> (\<exists>c2 s2. connection cl2 = Some c2 \<and> conn_sock c2 = Some s2
          \<and> (send_ok s2 \<longrightarrow>
                (\<exists>c3 s3. connection cl3 = Some c3 \<and> conn_sock c3 = Some s3
                   \<and> sent s3 = sent s2
                       @ [ascii ''{"execute": "guest-exec-status", "arguments": {"pid": null}}''
                          @ [10]])))\<close>
proof -
  let ?w2 = "launched lib command JNull w1"
  have x: "exec_command lib command capture_output input_data env cl w = (Inr JNull, cl2, w1)"
    using assms(1-5) by (simp add: exec_command_def)
  have l: "?w2
      = logger INFO (ustr ''Executing command: '' @ join_space command @ ustr '' (PID: None)'') w1"
    by (simp add: launched_def ustr_def)
  from client_send_connected [OF assms(3)] obtain c2 s2 where c2: "connection cl2 = Some c2"
    and s2: "conn_sock c2 = Some s2" and m: "max_poll_retries cl2 = max_poll_retries cl1"
    by auto
  from ensure_connected_frame [OF assms(1)] m assms(6) have lt: "0 < max_poll_retries cl2"
    by simp
  have "run_command lib command capture_output input_data env cl w = poll_loop lib JNull 0 cl2 ?w2"
    using x by (simp add: run_command_def)
  also have "\<dots> = (case st of
             Inl e \<Rightarrow> (Inl e, cl3, w3)
           | Inr status \<Rightarrow>
               (case py_get status (ustr ''exited'') (JBool False) of
                  Inl e \<Rightarrow> (Inl e, cl3, w3)
                | Inr ex \<Rightarrow>
                    (if truthy ex then
                       (case collect_result lib status w3 of (r, w4) \<Rightarrow> (r, cl3, w4))
                     else
                       (case sleep (poll_interval cl3) w3 of
                          None \<Rightarrow> (Inl ValueError, cl3, w3)
                        | Some w4 \<Rightarrow> poll_loop lib JNull 1 cl3 w4))))"
    using lt assms(7) by (subst poll_loop.simps) (simp split: sum.splits option.splits)
  finally have run: "run_command lib command capture_output input_data env cl w
      = (case st of
             Inl e \<Rightarrow> (Inl e, cl3, w3)
           | Inr status \<Rightarrow>
               (case py_get status (ustr ''exited'') (JBool False) of
                  Inl e \<Rightarrow> (Inl e, cl3, w3)
                | Inr ex \<Rightarrow>
                    (if truthy ex then
                       (case collect_result lib status w3 of (r, w4) \<Rightarrow> (r, cl3, w4))
                     else
                       (case sleep (poll_interval cl3) w3 of
                          None \<Rightarrow> (Inl ValueError, cl3, w3)
                        | Some w4 \<Rightarrow> poll_loop lib JNull 1 cl3 w4))))" .
  have snd: \<open>send_ok s2 \<longrightarrow>
      (\<exists>c3 s3. connection cl3 = Some c3 \<and> conn_sock c3 = Some s3
         \<and> sent s3 = sent s2
             @ [ascii ''{"execute": "guest-exec-status", "arguments": {"pid": null}}'' @ [10]])\<close>
  proof
    assume "send_ok s2"
    from get_exec_status_sends [OF c2 s2 this assms(7)]
    show \<open>\<exists>c3 s3. connection cl3 = Some c3 \<and> conn_sock c3 = Some s3
         \<and> sent s3 = sent s2
             @ [ascii ''{"execute": "guest-exec-status", "arguments": {"pid": null}}'' @ [10]]\<close>
      unfolding poll_none_bytes .
  qed
  from x l run c2 s2 snd show ?thesis
    by blast
qed

text \<open>
  The launch is answered with \<open>{"return": {}}\<close>; the poll that follows carries
  \<open>"pid": null\<close>.
\<close>

theorem missing_pid_polls_none_witness:
  \<open>exec_command demo_lib [ustr ''true''] True None None
      (demo_client 5 [] [reply ''{"return": {}}'', reply ''{"return": {"exited": true}}''])
      demo_world
    = (Inr JNull,
       demo_client 5
         [ascii (''{"execute": "guest-exec", "arguments": {"path": "true", ''
                 @ ''"capture-output": true}}'') @ [10]]
         [reply ''{"return": {"exited": true}}''],
       demo_world)
   \<and> run_command demo_lib [ustr ''true''] True None None
      (demo_client 5 [] [reply ''{"return": {}}'', reply ''{"return": {"exited": true}}''])
      demo_world
    = (Inr \<lparr>exitcode = JInt (- 1), exited = True, stdout = [], stderr = []\<rparr>,
       demo_client 5
         [ascii (''{"execute": "guest-exec", "arguments": {"path": "true", ''
                 @ ''"capture-output": true}}'') @ [10],
          ascii ''{"execute": "guest-exec-status", "arguments": {"pid": null}}'' @ [10]]
         [],
       \<lparr>log = [(INFO, ustr ''Executing command: true (PID: None)''),
               (INFO, ustr ''Command completed with exit code: -1'')],
        slept = [], listeners = []\<rparr>)\<close>
proof -
  let ?cl = \<open>demo_client 5 [] [reply ''{"return": {}}'', reply ''{"return": {"exited": true}}'']\<close>
  let ?cl2 = \<open>demo_client 5
      ([] @ [ascii (''{"execute": "guest-exec", "arguments": {"path": "true", ''
                    @ ''"capture-output": true}}'') @ [10]])
      [reply ''{"return": {"exited": true}}'']\<close>
  let ?cl3 = \<open>demo_client 5
      (([] @ [ascii (''{"execute": "guest-exec", "arguments": {"path": "true", ''
                     @ ''"capture-output": true}}'') @ [10]])
       @ [ascii ''{"execute": "guest-exec-status", "arguments": {"pid": null}}'' @ [10]])
      []\<close>
  let ?args = "[(ustr ''path'', JStr (ustr ''true'')), (ustr ''capture-output'', JBool True)]"
  let ?response = "JObj [(ustr ''return'', JObj [])]"
  let ?w2 = "launched demo_lib [ustr ''true''] JNull demo_world"
  have e: "ensure_connected ?cl demo_world = (Inr (), ?cl, demo_world)"
    by (simp add: ensure_connected_def demo_client_def)
  have a: "exec_arguments [ustr ''true''] True None None = Inr ?args"
    by (simp add: exec_arguments_def)
  have c: "client_send demo_lib (ustr ''guest-exec'') (Some ?args) ?cl = (Inr ?response, ?cl2)"
    by (simp add: client_send_def demo_defs eval_defs)
  have g: "py_get ?response (ustr ''return'') (JObj []) = Inr (JObj [])"
    by simp
  have m: "map_of [] (ustr ''pid'') = (None :: json option)"
    by simp
  have lt: "0 < max_poll_retries ?cl"
    by (simp add: demo_client_sel)
  have gs: "get_exec_status demo_lib JNull ?cl2 ?w2
      = (Inr (JObj [(ustr ''exited'', JBool True)]), ?cl3, ?w2)"
    by (rule demo_poll_none)
  have l: "?w2 = \<lparr>log = [(INFO, ustr ''Executing command: true (PID: None)'')], slept = [],
         listeners = []\<rparr>"
    by (simp add: launched_def logger_def demo_world_def ustr_def)
  have c1: "collect_result demo_lib (JObj [(ustr ''exited'', JBool True)]) w
      = (Inr \<lparr>exitcode = JInt (- 1), exited = True, stdout = [], stderr = []\<rparr>,
         logger INFO (ustr ''Command completed with exit code: -1'') w)" for w
    by (simp add: collect_result_def decode_stream_def ustr_def dec_int_def dec_nat.simps)
  note th = missing_pid_polls_none [OF e a c g m lt gs]
  note x = th [THEN conjunct1]
  note r = th [THEN conjunct2, THEN conjunct2, THEN conjunct1]
  from r have "run_command demo_lib [ustr ''true''] True None None ?cl demo_world
      = (Inr \<lparr>exitcode = JInt (- 1), exited = True, stdout = [], stderr = []\<rparr>, ?cl3,
         logger INFO (ustr ''Command completed with exit code: -1'') ?w2)"
    by (simp add: c1)
  then have "run_command demo_lib [ustr ''true''] True None None ?cl demo_world
      = (Inr \<lparr>exitcode = JInt (- 1), exited = True, stdout = [], stderr = []\<rparr>, ?cl3,
         \<lparr>log = [(INFO, ustr ''Executing command: true (PID: None)''),
                 (INFO, ustr ''Command completed with exit code: -1'')],
          slept = [], listeners = []\<rparr>)"
    unfolding l by (simp add: logger_def)
  with x show ?thesis
    by simp
qed

text \<open>
  C8 as stated fails: with \<open>max_poll_retries = 0\<close> the loop makes no poll; only the
  launch is sent and \<open>QGAError\<close> is raised.
\<close>

theorem no_poll_without_retries_counterexample:
  \<open>run_command demo_lib [ustr ''true''] True None None
      (demo_client 0 [] [reply ''{"return": {}}''])
      demo_world
    = (Inl (QGAError (ustr ''Command execution timeout after 0.0 seconds'')),
       demo_client 0
         [ascii (''{"execute": "guest-exec", "arguments": {"path": "true", ''
                 @ ''"capture-output": true}}'') @ [10]]
         [],
       \<lparr>log = [(INFO, ustr ''Executing command: true (PID: None)'')], slept = [],
        listeners = []\<rparr>)\<close>
proof -
  let ?cl2 = \<open>demo_client 0
         [ascii (''{"execute": "guest-exec", "arguments": {"path": "true", ''
                 @ ''"capture-output": true}}'') @ [10]]
         []\<close>
  have x: \<open>exec_command demo_lib [ustr ''true''] True None None
      (demo_client 0 [] [reply ''{"return": {}}'']) demo_world
    = (Inr JNull, ?cl2, demo_world)\<close>
    by (simp add: exec_command_def ensure_connected_def exec_arguments_def client_send_def
        demo_defs eval_defs)
  have \<open>run_command demo_lib [ustr ''true''] True None None
      (demo_client 0 [] [reply ''{"return": {}}'']) demo_world
    = (Inl (QGAError (ustr ''Command execution timeout after ''
         @ str_elapsed demo_lib 0 (1 / 10) @ ustr '' seconds'')),
       ?cl2, launched demo_lib [ustr ''true''] JNull demo_world)\<close>
    by (simp add: run_command_def x poll_loop.simps demo_client_sel)
  then show ?thesis
    by (simp add: demo_lib_def launched_def logger_def demo_world_def ustr_def)
qed

end
